theory Spec2Isabelle
  imports Complex_Main
begin

section \<open>Data model\<close>

text \<open>
  A shallow embedding of the selection model, the link renderer and the pointer
  handlers of \<^verbatim>\<open>LGraphCanvas.ts\<close>. JavaScript numbers are modelled as reals; objects
  owned by the graph are values whose mutable \<^verbatim>\<open>selected\<close> flag lives in the canvas
  state; calls to host callbacks and to the graph collaborator are appended to a log.
  The redraw flags, the cursor, the view transform and the hover state of nodes are
  not modelled: the modelled code writes them and never reads them.
\<close>

type_synonym point = "real \<times> real"

type_synonym rect = "real \<times> real \<times> real \<times> real"

text \<open>\<^verbatim>\<open>INodeInputSlot\<close>: \<^verbatim>\<open>link\<close> is a link id or null.\<close>

record input_slot =
  link :: "nat option"
  in_type :: string
  in_label_length :: "nat option"
  in_name_length :: "nat option"

text \<open>\<^verbatim>\<open>INodeOutputSlot\<close>: \<^verbatim>\<open>links\<close> is an array of link ids or null.\<close>

record output_slot =
  links :: "nat list option"
  out_type :: string

text \<open>
  The three kinds of \<^verbatim>\<open>Positionable\<close>. A node carries its slots; an absent
  \<^verbatim>\<open>inputs\<close> or \<^verbatim>\<open>outputs\<close> array behaves as the empty one in every use below
  (\<^verbatim>\<open>item.inputs?.forEach\<close>, \<^verbatim>\<open>if (node.outputs)\<close>).
\<close>

datatype item =
    LGraphNode (item_id: nat) (inputs: "input_slot list") (outputs: "output_slot list")
  | LGraphGroup (item_id: nat)
  | Reroute (item_id: nat)

fun isNode :: "item \<Rightarrow> bool" where
  "isNode (LGraphNode _ _ _) = True"
| "isNode _ = False"

record pointer_event =
  canvasX :: real
  canvasY :: real
  button :: int
  isPrimary :: bool
  shiftKey :: bool
  altKey :: bool
  ctrlKey :: bool
  metaKey :: bool
  pastThreshold :: bool

datatype LinkDirection = NONE | UP | DOWN | LEFT | RIGHT | CENTER

text \<open>\<^verbatim>\<open>ConnectingLink\<close>: a connection being dragged.\<close>

record connecting_link =
  cl_node :: item
  cl_slot :: nat
  cl_input :: "input_slot option"
  cl_output :: "output_slot option"
  cl_pos :: point
  afterRerouteId :: "nat option"
  cl_direction :: "LinkDirection option"

record widget =
  w_name :: string
  w_type :: string
  w_onPointerDown :: "bool option"
  w_read_only :: bool
  w_has_mouse :: bool

datatype path_cmd =
    MoveTo real real
  | BezierCurveTo real real real real real real
  | LineTo real real

type_synonym path2d = "path_cmd list"

text \<open>
  \<^verbatim>\<open>LinkSegment\<close>: a link or a reroute as the renderer caches it. \<^verbatim>\<open>centre_pos\<close> is
  the field \<^verbatim>\<open>_pos\<close>, \<^verbatim>\<open>centreAngle\<close> the field \<^verbatim>\<open>_centreAngle\<close>.
\<close>

record link_segment =
  seg_id :: nat
  parentId :: "nat option"
  origin_id :: nat
  origin_slot :: nat
  path :: "path2d option"
  centre_pos :: "point option"
  centreAngle :: "real option"

datatype canvas_event =
    ConnectingWidgetLink connecting_link item widget
  | EmptyRelease pointer_event "connecting_link list"
  | GroupDoubleClick pointer_event item
  | EmptyDoubleClick pointer_event

text \<open>
  Calls that leave the canvas: host callbacks, events and the graph collaborator. An
  optional callback is logged whether or not the host has set it.
\<close>

datatype call =
    OnSelected item
  | OnNodeSelected item
  | OnDeselected item
  | OnNodeDeselected item
  | OnSelectionChange
  | OnMouseDown pointer_event
  | GraphChange
  | GraphBeforeChange
  | GraphAfterChange "item option"
  | EmitBeforeChange
  | EmitAfterChange
  | EmitEvent canvas_event
  | Connect item nat item nat "nat option"
  | ConnectByType item nat item string "nat option"
  | ConnectByTypeOutput item nat item string "nat option"
  | DisconnectInput item nat
  | DisconnectOutput item nat
  | GraphAdd item
  | CreateReroute point link_segment
  | RecomputeInsideNodes item
  | SnapToGrid "item list"
  | OnNodeMoved "item list"
  | MoveItems "item list" bool
  | BringToFront item
  | Collapse item
  | ResizeGroup item point
  | ResizeNode item point
  | NodeCallback item string "nat list"
  | WidgetCallback item widget string
  | ShowLinkMenu link_segment pointer_event
  | ShowSearchBox pointer_event
  | ShowConnectionMenu connecting_link pointer_event
  | ProcessContextMenu "item option" pointer_event
  | CreateDefaultNodeForSlot item nat bool

text \<open>
  The hooks of the pointer session are closures in the source; each constructor stands
  for one closure, with the variables it captures. The \<^verbatim>\<open>finally\<close> hooks take no event
  and have a type of their own.
\<close>

datatype hook =
    ClickMultiSelect "item option"
  | ClickSelect "item option" pointer_event
  | ClickShowLinkMenu link_segment pointer_event
  | ClickCollapse item
  | ClickOutput item nat
  | ClickInput item nat
  | ClickWidget item widget
  | ClickDefaultNode item nat bool
  | DragStartRectangle rect
  | DragStartClone item
  | DragStartSetOutput "output_slot option"
  | DragStartSetInput input_slot
  | DragStartReconnect item nat "output_slot option"
  | DragStartItems item bool
  | DragStartGroup item
  | DragStartCanvas
  | DragStartResizeGroup item
  | DragStartResizeNode item
  | DragResizeGroup item real real
  | DragResizeNode item real real
  | DragWidget item widget
  | DragEndMultiSelect rect
  | DragEndItems
  | DragEndResizeNode
  | DoubleClickOutput item nat
  | DoubleClickInput item nat
  | DoubleClickNode item point bool
  | DoubleClickGroup pointer_event item
  | DoubleClickEmpty pointer_event

datatype final_hook =
    FinallyRectangle
  | FinallyCanvas
  | FinallyResizeGroup
  | FinallyResizeNode
  | FinallyItems
  | FinallyWidget item widget

text \<open>
  Modelled from the spec: the pointer session state of \<^verbatim>\<open>CanvasPointer\<close>, whose source
  is not part of the file. The spec lists \<^verbatim>\<open>isDown\<close>, \<^verbatim>\<open>isDouble\<close>, the drag-started
  flag, the press event and the hook slots. \<^verbatim>\<open>finally_hook\<close> is the slot \<^verbatim>\<open>finally\<close>.
  \<^verbatim>\<open>eUp\<close> is the release event, which the clean-up closure of a widget reads from the
  session: it is there once \<^verbatim>\<open>up\<close> has seen a release.
\<close>

record canvas_pointer =
  isDown :: bool
  isDouble :: bool
  dragStarted :: bool
  eDown :: "pointer_event option"
  eUp :: "pointer_event option"
  onClick :: "hook option"
  onDoubleClick :: "hook option"
  onDragStart :: "hook option"
  onDrag :: "hook option"
  onDragEnd :: "hook option"
  finally_hook :: "final_hook option"

text \<open>
  The fields of \<^verbatim>\<open>LGraphCanvas\<close> that selection and pointer handling read or write.
  \<^verbatim>\<open>selected\<close> holds the \<^verbatim>\<open>selected\<close> flag of every item; \<^verbatim>\<open>selectedItems\<close> is the
  JavaScript \<^verbatim>\<open>Set\<close> in insertion order; \<^verbatim>\<open>highlighted_links\<close> is keyed by what the code
  indexes it with, where \<^verbatim>\<open>None\<close> is the key of a null link; \<^verbatim>\<open>has_graph\<close> says that
  \<^verbatim>\<open>this.graph\<close> is set.
\<close>

record canvas =
  selected :: "item \<Rightarrow> bool"
  selectedItems :: "item list"
  selected_nodes :: "nat \<rightharpoonup> item"
  highlighted_links :: "nat option \<rightharpoonup> bool"
  current_node :: "item option"
  selected_group :: "item option"
  isDragging :: bool
  dragging_canvas :: bool
  read_only :: bool
  dragging_rectangle :: "rect option"
  resizingGroup :: "item option"
  resizing_node :: "item option"
  connecting_links :: "connecting_link list option"
  link_over_widget :: "widget option"
  node_widget :: "(item \<times> widget) option"
  pointer :: canvas_pointer
  has_graph :: bool
  allow_dragcanvas :: bool
  allow_dragnodes :: bool
  allow_interaction :: bool
  allow_reconnect_links :: bool
  allow_searchbox :: bool
  multi_select :: bool
  reroutesEnabled :: bool
  connections_width :: real
  ctx_lineWidth :: real
  block_click :: bool
  calls :: "call list"

definition log_call :: "call \<Rightarrow> canvas \<Rightarrow> canvas" where
  "log_call k c = c\<lparr>calls := calls c @ [k]\<rparr>"

text \<open>
  A handler either returns or throws the \<^verbatim>\<open>TypeError\<close> of a property read on \<^verbatim>\<open>null\<close> or
  \<^verbatim>\<open>undefined\<close>. The canvas keeps what was written before the throw, so the error comes
  with the canvas at the throw.
\<close>

datatype handler_error = ReadOfNull

type_synonym outcome = "handler_error \<times> canvas + canvas"

definition threw :: "outcome \<Rightarrow> bool" where
  "threw r = (case r of Inl _ \<Rightarrow> True | Inr _ \<Rightarrow> False)"

definition state_of :: "outcome \<Rightarrow> canvas" where
  "state_of r = (case r of Inl (_, c) \<Rightarrow> c | Inr c \<Rightarrow> c)"

section \<open>Selection model\<close>

text \<open>\<^verbatim>\<open>Set.add\<close> and \<^verbatim>\<open>Set.delete\<close> on the insertion-ordered set.\<close>

definition set_add :: "'a list \<Rightarrow> 'a \<Rightarrow> 'a list" where
  "set_add xs x = (if x \<in> set xs then xs else xs @ [x])"

definition set_delete :: "'a list \<Rightarrow> 'a \<Rightarrow> 'a list" where
  "set_delete xs x = filter (\<lambda>y. y \<noteq> x) xs"

text \<open>
  The keys that \<^verbatim>\<open>select\<close> and \<^verbatim>\<open>deselect\<close> visit for a node: \<^verbatim>\<open>input.link\<close> of every
  input, then \<^verbatim>\<open>outputs.flatMap(x => x.links)\<close>, where a null \<^verbatim>\<open>links\<close> contributes the
  single value null.
\<close>

definition output_link_keys :: "output_slot list \<Rightarrow> nat option list" where
  "output_link_keys outs =
     concat (map (\<lambda>x. case links x of None \<Rightarrow> [None] | Some ls \<Rightarrow> map Some ls) outs)"

definition node_link_keys :: "item \<Rightarrow> nat option list" where
  "node_link_keys it = map link (inputs it) @ output_link_keys (outputs it)"

definition highlight :: "nat option list \<Rightarrow> (nat option \<rightharpoonup> bool) \<Rightarrow> (nat option \<rightharpoonup> bool)" where
  "highlight ks m = fold (\<lambda>k m. m(k \<mapsto> True)) ks m"

definition unhighlight :: "nat option list \<Rightarrow> (nat option \<rightharpoonup> bool) \<Rightarrow> (nat option \<rightharpoonup> bool)" where
  "unhighlight ks m = fold (\<lambda>k m. m(k := None)) ks m"

definition select :: "item \<Rightarrow> canvas \<Rightarrow> canvas" where
  "select it c =
     (if selected c it \<and> it \<in> set (selectedItems c) then c
      else
        let c1 = c\<lparr>selected := (selected c)(it := True),
                   selectedItems := set_add (selectedItems c) it\<rparr>
        in if \<not> isNode it then c1
           else
             let c2 = log_call (OnSelected it) c1;
                 c3 = c2\<lparr>selected_nodes := (selected_nodes c2)(item_id it \<mapsto> it)\<rparr>;
                 c4 = log_call (OnNodeSelected it) c3
             in c4\<lparr>highlighted_links :=
                      highlight (node_link_keys it) (highlighted_links c4)\<rparr>)"

definition deselect :: "item \<Rightarrow> canvas \<Rightarrow> canvas" where
  "deselect it c =
     (if \<not> selected c it \<and> it \<notin> set (selectedItems c) then c
      else
        let c1 = c\<lparr>selected := (selected c)(it := False),
                   selectedItems := set_delete (selectedItems c) it\<rparr>
        in if \<not> isNode it then c1
           else
             let c2 = log_call (OnDeselected it) c1;
                 c3 = c2\<lparr>selected_nodes := (selected_nodes c2)(item_id it := None)\<rparr>;
                 c4 = log_call (OnNodeDeselected it) c3
             in c4\<lparr>highlighted_links :=
                      unhighlight (node_link_keys it) (highlighted_links c4)\<rparr>)"

text \<open>The loop of \<^verbatim>\<open>deselectAll\<close> over the selection set, skipping the kept item.\<close>

fun deselectAll_loop :: "item option \<Rightarrow> item list \<Rightarrow> canvas \<Rightarrow> canvas" where
  "deselectAll_loop keep [] c = c"
| "deselectAll_loop keep (sel # rest) c =
     (if Some sel = keep then deselectAll_loop keep rest c
      else
        let c1 = log_call (OnDeselected sel) c
        in deselectAll_loop keep rest (c1\<lparr>selected := (selected c1)(sel := False)\<rparr>))"

definition deselectAll :: "item option \<Rightarrow> canvas \<Rightarrow> canvas" where
  "deselectAll keepSelected c =
     (if \<not> has_graph c then c
      else
        let wasSelected = (case keepSelected of
                             None \<Rightarrow> None
                           | Some k \<Rightarrow> if k \<in> set (selectedItems c) then Some k else None);
            c1 = deselectAll_loop keepSelected (selectedItems c) c;
            c2 = c1\<lparr>selectedItems := (case wasSelected of None \<Rightarrow> [] | Some k \<Rightarrow> [k])\<rparr>;
            c3 = c2;
            oldNode = (case keepSelected of
                         None \<Rightarrow> None
                       | Some k \<Rightarrow> selected_nodes c3 (item_id k));
            c4 = c3\<lparr>selected_nodes := Map.empty, current_node := None,
                     highlighted_links := Map.empty\<rparr>;
            c5 = (case keepSelected of
                    None \<Rightarrow> c4
                  | Some k \<Rightarrow>
                      if \<not> isNode k then c4
                      else
                        let c4a = (case oldNode of
                                     None \<Rightarrow> c4
                                   | Some n \<Rightarrow> c4\<lparr>selected_nodes :=
                                                  (selected_nodes c4)(item_id n \<mapsto> n)\<rparr>)
                        in c4a\<lparr>highlighted_links :=
                                 highlight (node_link_keys k) (highlighted_links c4a)\<rparr>)
        in log_call OnSelectionChange c5)"

section \<open>Geometry helpers\<close>

text \<open>
  Modelled from the spec: \<^verbatim>\<open>isInRectangle\<close> of \<^verbatim>\<open>measure.ts\<close>, whose source is missing
  (point/rect containment). The rectangle is given by its left, top, width and height.
\<close>

definition isInRectangle :: "real \<Rightarrow> real \<Rightarrow> real \<Rightarrow> real \<Rightarrow> real \<Rightarrow> real \<Rightarrow> bool" where
  "isInRectangle x y rx ry rw rh = (rx \<le> x \<and> x < rx + rw \<and> ry \<le> y \<and> y < ry + rh)"

text \<open>
  Modelled from the spec: \<^verbatim>\<open>isPointInRect\<close> of \<^verbatim>\<open>measure.ts\<close>, whose source is missing
  (point/rect containment).
\<close>

definition isPointInRect :: "point \<Rightarrow> rect \<Rightarrow> bool" where
  "isPointInRect p r =
     (case (p, r) of ((x, y), (rx, ry, rw, rh)) \<Rightarrow>
        rx \<le> x \<and> x < rx + rw \<and> ry \<le> y \<and> y < ry + rh)"

text \<open>
  Modelled from the spec: \<^verbatim>\<open>overlapBounding\<close> of \<^verbatim>\<open>measure.ts\<close>, whose source is
  missing (bounding-box overlap): the two rectangles share a point.
\<close>

definition overlapBounding :: "rect \<Rightarrow> rect \<Rightarrow> bool" where
  "overlapBounding a b =
     (case (a, b) of ((ax, ay, aw, ah), (bx, by, bw, bh)) \<Rightarrow>
        \<not> (ax > bx + bw \<or> ay > by + bh \<or> ax + aw < bx \<or> ay + ah < by))"

text \<open>
  Modelled from the spec: \<^verbatim>\<open>containsRect\<close> of \<^verbatim>\<open>measure.ts\<close>, whose source is missing
  (``bounds fully inside the rectangle''): the second rectangle lies inside the first.
\<close>

definition containsRect :: "rect \<Rightarrow> rect \<Rightarrow> bool" where
  "containsRect a b =
     (case (a, b) of ((ax, ay, aw, ah), (bx, by, bw, bh)) \<Rightarrow>
        ax \<le> bx \<and> ay \<le> by \<and> bx + bw \<le> ax + aw \<and> by + bh \<le> ay + ah)"

section \<open>The graph collaborator\<close>

text \<open>\<^verbatim>\<open>LLink\<close>: the ends of a stored link.\<close>

record llink =
  l_origin_id :: nat
  l_origin_slot :: nat
  l_target_id :: nat
  l_target_slot :: nat

text \<open>
  What the handlers ask of the graph, of its nodes and groups and of the browser at one
  event. The sources of \<^verbatim>\<open>LGraph\<close>, \<^verbatim>\<open>LGraphNode\<close>, \<^verbatim>\<open>LGraphGroup\<close> and \<^verbatim>\<open>Reroute\<close> are
  missing, so their answers are parameters. The graph is taken to be consistent: a link
  id stored in a slot resolves to a link, and its node ids to nodes. \<^verbatim>\<open>onMouse\<close> says
  that the host's \<^verbatim>\<open>onMouse\<close> callback returns true, \<^verbatim>\<open>is_inside\<close> that the event lies in
  the viewport, and \<^verbatim>\<open>hover_link_widget\<close> is what the hover pass of a pointer move, which
  is not modelled, writes to \<^verbatim>\<open>link_over_widget\<close> (\<open>None\<close> when it writes nothing).
  \<^verbatim>\<open>clone_node\<close> is the outcome of \<^verbatim>\<open>node.clone()?.serialize()\<close> followed by
  \<^verbatim>\<open>LiteGraph.createNode(node_data.type)\<close>: \<^verbatim>\<open>clone()\<close> returned \<^verbatim>\<open>null\<close>, so that there is
  no \<^verbatim>\<open>node_data\<close> to read the type from; or \<^verbatim>\<open>createNode\<close> returned \<^verbatim>\<open>null\<close>; or the new
  node, configured and moved.
\<close>

datatype clone_result = CloneNull | CreateNull | Cloned item

record graph =
  nodes :: "item list"
  groups :: "item list"
  reroutes :: "item list"
  boundingRect :: "item \<Rightarrow> rect"
  group_bounding :: "item \<Rightarrow> rect"
  item_pos :: "item \<Rightarrow> point"
  item_size :: "item \<Rightarrow> point"
  getNodeOnPos :: "real \<Rightarrow> real \<Rightarrow> item option"
  getRerouteOnPos :: "real \<Rightarrow> real \<Rightarrow> item option"
  getGroupOnPos :: "real \<Rightarrow> real \<Rightarrow> item option"
  getGroupTitlebarOnPos :: "real \<Rightarrow> real \<Rightarrow> item option"
  links_get :: "nat \<Rightarrow> llink"
  nodes_by_id :: "nat \<Rightarrow> item"
  reroute_first_link :: "item \<Rightarrow> nat"
  createReroute :: "point \<Rightarrow> link_segment \<Rightarrow> item"
  getConnectionPos :: "item \<Rightarrow> bool \<Rightarrow> nat \<Rightarrow> point"
  isPointInCollapse :: "item \<Rightarrow> real \<Rightarrow> real \<Rightarrow> bool"
  inResizeCorner :: "item \<Rightarrow> real \<Rightarrow> real \<Rightarrow> bool"
  isInResize :: "item \<Rightarrow> real \<Rightarrow> real \<Rightarrow> bool"
  getWidgetOnPos :: "item \<Rightarrow> real \<Rightarrow> real \<Rightarrow> widget option"
  flags_pinned :: "item \<Rightarrow> bool"
  flags_collapsed :: "item \<Rightarrow> bool"
  flags_allow_interaction :: "item \<Rightarrow> bool"
  resizable :: "item \<Rightarrow> bool"
  horizontal :: "item \<Rightarrow> bool"
  font_size :: "item \<Rightarrow> real option"
  node_onMouseDown :: "item \<Rightarrow> bool"
  clone_node :: "item \<Rightarrow> clone_result"
  renderedPaths :: "link_segment list"
  isPointInStroke :: "real \<Rightarrow> path2d \<Rightarrow> real \<Rightarrow> real \<Rightarrow> bool"
  devicePixelRatio :: "real option"
  onMouse :: bool
  is_inside :: bool
  hover_link_widget :: "widget option option"

section \<open>Multi-select rectangle\<close>

text \<open>
  \<^verbatim>\<open>#handleMultiSelect\<close> first turns the (position, offset) pair into a rectangle of
  non-negative size.
\<close>

definition normalise_rect :: "rect \<Rightarrow> rect" where
  "normalise_rect r =
     (case r of (x, y, dw, dh) \<Rightarrow>
        let w = \<bar>dw\<bar>; h = \<bar>dh\<bar>
        in ((if dw < 0 then x - w else x), (if dh < 0 then y - h else y), w, h))"

text \<open>The state of the three classification loops: canvas, \<^verbatim>\<open>isSelected\<close>, \<^verbatim>\<open>notSelected\<close>.\<close>

type_synonym classification = "canvas \<times> item list \<times> item list"

definition classify :: "item \<Rightarrow> classification \<Rightarrow> classification" where
  "classify it s =
     (case s of (c, isSel, notSel) \<Rightarrow>
        if \<not> selected c it \<or> it \<notin> set (selectedItems c)
        then (c, isSel, notSel @ [it])
        else (c, isSel @ [it], notSel))"

definition classify_node :: "graph \<Rightarrow> rect \<Rightarrow> item \<Rightarrow> classification \<Rightarrow> classification" where
  "classify_node g r nodeX s =
     (if \<not> overlapBounding r (boundingRect g nodeX) then s else classify nodeX s)"

definition classify_group :: "graph \<Rightarrow> rect \<Rightarrow> item \<Rightarrow> classification \<Rightarrow> classification" where
  "classify_group g r grp s =
     (if \<not> containsRect r (group_bounding g grp) then s
      else case s of (c, isSel, notSel) \<Rightarrow>
             classify grp (log_call (RecomputeInsideNodes grp) c, isSel, notSel))"

definition classify_reroute :: "graph \<Rightarrow> rect \<Rightarrow> item \<Rightarrow> classification \<Rightarrow> classification" where
  "classify_reroute g r rr s =
     (if \<not> isPointInRect (item_pos g rr) r then s
      else case s of (c, isSel, notSel) \<Rightarrow>
             classify rr
               (c\<lparr>selectedItems := set_add (selectedItems c) rr,
                  selected := (selected c)(rr := True)\<rparr>, isSel, notSel))"

definition classify_all :: "graph \<Rightarrow> rect \<Rightarrow> canvas \<Rightarrow> classification" where
  "classify_all g r c =
     fold (classify_reroute g r) (reroutes g)
       (fold (classify_group g r) (groups g)
          (fold (classify_node g r) (nodes g) (c, [], [])))"

definition handleMultiSelect :: "graph \<Rightarrow> pointer_event \<Rightarrow> rect \<Rightarrow> canvas \<Rightarrow> canvas" where
  "handleMultiSelect g e dragRect c0 =
     (let r = normalise_rect dragRect;
          c = c0\<lparr>dragging_rectangle := map_option (\<lambda>_. r) (dragging_rectangle c0)\<rparr>
      in case classify_all g r c of (c1, isSelected, notSelected) \<Rightarrow>
           if shiftKey e then fold select notSelected c1
           else if altKey e then fold deselect isSelected c1
           else
             fold select notSelected
               (fold (\<lambda>it c'. if it \<notin> set isSelected then deselect it c' else c')
                  (selectedItems c1) c1))"

text \<open>The items the rectangle classifies: what the three loops let through.\<close>

definition classified :: "graph \<Rightarrow> rect \<Rightarrow> item set" where
  "classified g r =
     {n \<in> set (nodes g). overlapBounding r (boundingRect g n)}
     \<union> {grp \<in> set (groups g). containsRect r (group_bounding g grp)}
     \<union> {rr \<in> set (reroutes g). isPointInRect (item_pos g rr) r}"

text \<open>\<^verbatim>\<open>positionableItems\<close>: all items on the canvas that can be selected.\<close>

definition positionableItems :: "graph \<Rightarrow> item list" where
  "positionableItems g = nodes g @ groups g @ reroutes g"

text \<open>
  The selection invariant of the data model, for one item: its \<^verbatim>\<open>selected\<close> flag is
  set exactly when it is a member of \<^verbatim>\<open>selectedItems\<close>.
\<close>

definition item_consistent :: "canvas \<Rightarrow> item \<Rightarrow> bool" where
  "item_consistent c it = (selected c it \<longleftrightarrow> it \<in> set (selectedItems c))"

text \<open>
  What the loops of \<^verbatim>\<open>#handleMultiSelect\<close> maintain, for a set \<open>G\<close> of items that are
  consistent and a set \<open>S\<close> of items classified so far.
\<close>

definition classes_ok :: "item set \<Rightarrow> canvas \<Rightarrow> item set \<Rightarrow> classification \<Rightarrow> bool" where
  "classes_ok G c0 S s =
     (case s of (c, isSel, notSel) \<Rightarrow>
        (\<forall>it \<in> G. item_consistent c it)
        \<and> set (selectedItems c0) \<subseteq> set (selectedItems c)
        \<and> set (selectedItems c) \<subseteq> set (selectedItems c0) \<union> set isSel
        \<and> set isSel \<subseteq> set (selectedItems c)
        \<and> set notSel \<inter> set (selectedItems c0) = {}
        \<and> set isSel \<union> set notSel = S)"

section \<open>Link rendering\<close>

text \<open>
  Modelled from the spec: \<^verbatim>\<open>distance\<close> of \<^verbatim>\<open>measure.ts\<close>, whose source is missing: the
  distance between two points.
\<close>

definition distance :: "point \<Rightarrow> point \<Rightarrow> real" where
  "distance a b = sqrt ((fst b - fst a) * (fst b - fst a) + (snd b - snd a) * (snd b - snd a))"

text \<open>
  Modelled from the spec: \<^verbatim>\<open>findPointOnCurve\<close> of \<^verbatim>\<open>measure.ts\<close>, whose source is
  missing: the cubic bezier from \<open>a\<close> to \<open>b\<close> with the two control points, sampled at
  \<open>t\<close> by direct weighted-sum evaluation. \<^verbatim>\<open>computeConnectionPoint\<close> below carries the
  same sum in the file itself.
\<close>

definition findPointOnCurve :: "point \<Rightarrow> point \<Rightarrow> point \<Rightarrow> point \<Rightarrow> real \<Rightarrow> point" where
  "findPointOnCurve a b controlA controlB t =
     (let c1 = (1 - t) * (1 - t) * (1 - t);
          c2 = 3 * ((1 - t) * (1 - t)) * t;
          c3 = 3 * (1 - t) * (t * t);
          c4 = t * t * t
      in (c1 * fst a + c2 * fst controlA + c3 * fst controlB + c4 * fst b,
          c1 * snd a + c2 * snd controlA + c3 * snd controlB + c4 * snd b))"

text \<open>
  Modelled from the spec: the enumerations \<^verbatim>\<open>LinkRenderType\<close> and \<^verbatim>\<open>LinkMarkerShape\<close> of
  \<^verbatim>\<open>types/globalEnums\<close>, whose source is missing, as is \<^verbatim>\<open>LinkDirection\<close> above
  (up, down, left, right, center, and \<^verbatim>\<open>NONE\<close> as the falsy member).
  \<^verbatim>\<open>links_render_mode\<close> is a number: \<open>OtherMode\<close> stands for every value that is none of
  the three modes.
\<close>

datatype LinkRenderType = STRAIGHT_LINK | LINEAR_LINK | SPLINE_LINK | OtherMode int

datatype LinkMarkerShape = MarkerNone | Circle | Arrow

text \<open>\<^verbatim>\<open>LLink\<close> as the renderer sees it: a link segment with a type and a colour.\<close>

record render_link = link_segment +
  link_type :: string
  link_color :: "string option"

text \<open>
  What reaches the drawing context: each \<^verbatim>\<open>stroke\<close> and each \<^verbatim>\<open>fill\<close>. \<open>FillAgain\<close>
  is a \<^verbatim>\<open>fill\<close> of the path that the context holds after \<^verbatim>\<open>beginPath\<close> and the marker.
\<close>

datatype draw_op =
    Stroke path2d
  | FillArrow point real
  | FillCentreArrow point "real option"
  | FillCircle point
  | FillAgain

record ctx2d =
  lineWidth :: real
  lineJoin :: string
  strokeStyle :: string
  fillStyle :: string
  drawn :: "draw_op list"

text \<open>The fields of \<^verbatim>\<open>LGraphCanvas\<close> that only \<^verbatim>\<open>renderLink\<close> uses, and the context.\<close>

record render_state =
  links_render_mode :: LinkRenderType
  render_connections_border :: bool
  ds_scale :: real
  linkMarkerShape :: "LinkMarkerShape option"
  highquality_render :: bool
  render_connection_arrows :: bool
  render_curved_connections :: bool
  default_link_color :: string
  link_type_colors :: "string \<Rightarrow> string option"
  visible_links :: "render_link list"
  ctx :: ctx2d

datatype render_error = TypeError

record render_options =
  startControl :: "point option"
  endControl :: "point option"
  reroute :: "link_segment option"
  num_sublines :: int

record render_out =
  ro_state :: render_state
  ro_link :: "render_link option"
  ro_reroute :: "link_segment option"
  ro_pos :: point
  ro_error :: "render_error option"

text \<open>A colour is falsy when it is absent or the empty string.\<close>

definition truthy :: "string option \<Rightarrow> bool" where
  "truthy col = (col \<noteq> None \<and> col \<noteq> Some [])"

text \<open>
  The colour of the link. With no link and no colour given, \<^verbatim>\<open>link.type\<close> is read off
  null and the call throws.
\<close>

definition linkColour ::
  "canvas \<Rightarrow> render_state \<Rightarrow> render_link option \<Rightarrow> string option \<Rightarrow> render_error + string" where
  "linkColour c rs lnk color =
     (case lnk of
        None \<Rightarrow> if truthy color then Inr (the color) else Inl TypeError
      | Some l \<Rightarrow>
          if highlighted_links c (Some (seg_id l)) = Some True then Inr ''#FFF''
          else if truthy color then Inr (the color)
          else if truthy (link_color l) then Inr (the (link_color l))
          else if truthy (link_type_colors rs (link_type l))
               then Inr (the (link_type_colors rs (link_type l)))
          else Inr (default_link_color rs))"

text \<open>\<^verbatim>\<open>start_dir || LinkDirection.RIGHT\<close>.\<close>

definition dir_or :: "LinkDirection \<Rightarrow> LinkDirection \<Rightarrow> LinkDirection" where
  "dir_or d dflt = (if d = NONE then dflt else d)"

definition addSplineOffset :: "point \<Rightarrow> LinkDirection \<Rightarrow> real \<Rightarrow> real \<Rightarrow> point" where
  "addSplineOffset p direction dst factor =
     (case direction of
        LEFT \<Rightarrow> (fst p + dst * - factor, snd p)
      | RIGHT \<Rightarrow> (fst p + dst * factor, snd p)
      | UP \<Rightarrow> (fst p, snd p + dst * - factor)
      | DOWN \<Rightarrow> (fst p, snd p + dst * factor)
      | _ \<Rightarrow> p)"

definition computeConnectionPoint ::
  "point \<Rightarrow> point \<Rightarrow> real \<Rightarrow> LinkDirection \<Rightarrow> LinkDirection \<Rightarrow> point" where
  "computeConnectionPoint a b t start_dir end_dir =
     (let sd = dir_or start_dir RIGHT;
          ed = dir_or end_dir LEFT;
          dst = distance a b;
          pa = addSplineOffset a sd dst 0.25;
          pb = addSplineOffset b ed dst 0.25;
          c1 = (1 - t) * (1 - t) * (1 - t);
          c2 = 3 * ((1 - t) * (1 - t)) * t;
          c3 = 3 * (1 - t) * (t * t);
          c4 = t * t * t
      in (c1 * fst a + c2 * fst pa + c3 * fst pb + c4 * fst b,
          c1 * snd a + c2 * snd pa + c3 * snd pb + c4 * snd b))"

text \<open>
  What one pass of the subline loop carries: the path built so far, the centre point
  \<^verbatim>\<open>pos\<close> and the centre angle of the segment.
\<close>

record subline_state =
  sl_path :: path2d
  sl_pos :: point
  sl_angle :: "real option"

text \<open>
  The offset of a linear link's stub: 15 units along the direction, nothing for
  \<^verbatim>\<open>CENTER\<close> and \<^verbatim>\<open>NONE\<close>.
\<close>

definition linear_stub :: "point \<Rightarrow> LinkDirection \<Rightarrow> point" where
  "linear_stub p direction =
     (case direction of
        LEFT \<Rightarrow> (fst p + - 15, snd p)
      | RIGHT \<Rightarrow> (fst p + 15, snd p)
      | UP \<Rightarrow> (fst p, snd p + - 15)
      | DOWN \<Rightarrow> (fst p, snd p + 15)
      | _ \<Rightarrow> p)"

text \<open>
  The body of the loop over sublines, for subline \<open>i\<close>. \<open>None\<close> is the \<^verbatim>\<open>return\<close> of the
  unknown mode. \<open>marks\<close> says that a segment is present and the marker shape is
  \<^verbatim>\<open>Arrow\<close>; \<open>atan2\<close> is \<^verbatim>\<open>Math.atan2\<close>. A null \<open>dst\<close> counts as zero in the arithmetic.
\<close>

definition render_subline ::
  "render_state \<Rightarrow> (real \<Rightarrow> real \<Rightarrow> real) \<Rightarrow> point \<Rightarrow> point \<Rightarrow> LinkDirection \<Rightarrow> LinkDirection
   \<Rightarrow> real option \<Rightarrow> render_options \<Rightarrow> bool \<Rightarrow> int \<Rightarrow> int \<Rightarrow> subline_state
   \<Rightarrow> subline_state option" where
  "render_subline rs atan2 a b startDir endDir dst opts marks n i s =
     (let offsety = (real_of_int i - (real_of_int n - 1) * 0.5) * 5;
          d = (case dst of None \<Rightarrow> 0 | Some v \<Rightarrow> v)
      in case links_render_mode rs of
           SPLINE_LINK \<Rightarrow>
             let innerB = (case endControl opts of
                             Some ec \<Rightarrow> (fst b + fst ec, snd b + snd ec)
                           | None \<Rightarrow> addSplineOffset b endDir d 0.25);
                 innerA = (case startControl opts of
                             Some sc \<Rightarrow> (fst a + fst sc, snd a + snd sc)
                           | None \<Rightarrow> addSplineOffset a startDir d 0.25);
                 p = sl_path s @
                       [MoveTo (fst a) (snd a + offsety),
                        BezierCurveTo (fst innerA) (snd innerA + offsety)
                          (fst innerB) (snd innerB + offsety) (fst b) (snd b + offsety)];
                 centre = findPointOnCurve a b innerA innerB 0.5;
                 justPastCentre = findPointOnCurve a b innerA innerB 0.51
             in Some (s\<lparr>sl_path := p, sl_pos := centre,
                        sl_angle := (if marks
                                     then Some (atan2 (snd justPastCentre - snd centre)
                                                  (fst justPastCentre - fst centre))
                                     else sl_angle s)\<rparr>)
         | LINEAR_LINK \<Rightarrow>
             let innerA = linear_stub a startDir;
                 innerB = linear_stub b endDir;
                 p = sl_path s @
                       [MoveTo (fst a) (snd a + offsety),
                        LineTo (fst innerA) (snd innerA + offsety),
                        LineTo (fst innerB) (snd innerB + offsety),
                        LineTo (fst b) (snd b + offsety)]
             in Some (s\<lparr>sl_path := p,
                        sl_pos := ((fst innerA + fst innerB) * 0.5,
                                   (snd innerA + snd innerB) * 0.5),
                        sl_angle := (if marks
                                     then Some (atan2 (snd innerB - snd innerA)
                                                  (fst innerB - fst innerA))
                                     else sl_angle s)\<rparr>)
         | STRAIGHT_LINK \<Rightarrow>
             let innerA = (if startDir = RIGHT then (fst a + 10, snd a) else (fst a, snd a + 10));
                 innerB = (if endDir = LEFT then (fst b - 10, snd b) else (fst b, snd b - 10));
                 midX = (fst innerA + fst innerB) * 0.5;
                 p = sl_path s @
                       [MoveTo (fst a) (snd a),
                        LineTo (fst innerA) (snd innerA),
                        LineTo midX (snd innerA),
                        LineTo midX (snd innerB),
                        LineTo (fst innerB) (snd innerB),
                        LineTo (fst b) (snd b)];
                 diff = snd innerB - snd innerA
             in Some (s\<lparr>sl_path := p,
                        sl_pos := (midX, (snd innerA + snd innerB) * 0.5),
                        sl_angle := (if marks
                                     then Some (if \<bar>diff\<bar> < 4 then 0
                                                else if diff > 0 then pi * 0.5
                                                else - (pi * 0.5))
                                     else sl_angle s)\<rparr>)
         | OtherMode _ \<Rightarrow> None)"

text \<open>\<^verbatim>\<open>for (let i = 0; i < num_sublines; i += 1)\<close>, over the indices still to run.\<close>

fun render_sublines ::
  "(int \<Rightarrow> subline_state \<Rightarrow> subline_state option) \<Rightarrow> int list \<Rightarrow> subline_state
   \<Rightarrow> subline_state option" where
  "render_sublines body [] s = Some s"
| "render_sublines body (i # rest) s =
     (case body i s of None \<Rightarrow> None | Some s' \<Rightarrow> render_sublines body rest s')"

text \<open>
  Writing the loop's results back: the path object was stored on the segment before the
  loop; \<^verbatim>\<open>pos\<close> is the segment's \<^verbatim>\<open>_pos\<close> array when it has one, and a scratch array
  otherwise.
\<close>

definition store_segment :: "subline_state \<Rightarrow> 'a link_segment_scheme \<Rightarrow> 'a link_segment_scheme" where
  "store_segment s seg =
     seg\<lparr>path := Some (sl_path s),
         centre_pos := (case centre_pos seg of None \<Rightarrow> None | Some _ \<Rightarrow> Some (sl_pos s)),
         centreAngle := sl_angle s\<rparr>"

text \<open>The part of \<^verbatim>\<open>renderLink\<close> after the loop: the strokes, the arrows and the markers.\<close>

definition draw_op_add :: "draw_op \<Rightarrow> ctx2d \<Rightarrow> ctx2d" where
  "draw_op_add d cx = cx\<lparr>drawn := drawn cx @ [d]\<rparr>"

definition stroke_link ::
  "canvas \<Rightarrow> render_state \<Rightarrow> bool \<Rightarrow> string \<Rightarrow> path2d \<Rightarrow> ctx2d \<Rightarrow> ctx2d" where
  "stroke_link c rs skip_border colour p cx =
     (let cx1 = (if render_connections_border rs \<and> ds_scale rs > 0.6 \<and> \<not> skip_border
                 then draw_op_add (Stroke p) (cx\<lparr>strokeStyle := ''rgba(0,0,0,0.5)''\<rparr>)
                 else cx);
          cx2 = cx1\<lparr>lineWidth := connections_width c, fillStyle := colour,
                    strokeStyle := colour\<rparr>
      in draw_op_add (Stroke p) cx2)"

definition draw_arrows ::
  "render_state \<Rightarrow> (real \<Rightarrow> real \<Rightarrow> real) \<Rightarrow> point \<Rightarrow> point \<Rightarrow> LinkDirection \<Rightarrow> LinkDirection
   \<Rightarrow> ctx2d \<Rightarrow> ctx2d" where
  "draw_arrows rs atan2 a b startDir endDir cx =
     (if \<not> render_connection_arrows rs then cx
      else
        let posA = computeConnectionPoint a b 0.25 startDir endDir;
            posB = computeConnectionPoint a b 0.26 startDir endDir;
            posC = computeConnectionPoint a b 0.75 startDir endDir;
            posD = computeConnectionPoint a b 0.76 startDir endDir;
            angleA = (if render_curved_connections rs
                      then - atan2 (fst posB - fst posA) (snd posB - snd posA)
                      else if snd b > snd a then 0 else pi);
            angleB = (if render_curved_connections rs
                      then - atan2 (fst posD - fst posC) (snd posD - snd posC)
                      else if snd b > snd a then 0 else pi)
        in draw_op_add (FillArrow posC angleB) (draw_op_add (FillArrow posA angleA) cx))"

definition draw_marker :: "render_state \<Rightarrow> point \<Rightarrow> real option \<Rightarrow> ctx2d \<Rightarrow> ctx2d" where
  "draw_marker rs p angle cx =
     (let cx1 = (if linkMarkerShape rs = Some Arrow
                 then draw_op_add (FillCentreArrow p angle) cx
                 else cx)
      in if linkMarkerShape rs = None \<or> linkMarkerShape rs = Some Circle
         then draw_op_add (FillCircle p) cx1
         else draw_op_add FillAgain cx1)"

text \<open>
  The five flowing points; \<open>now\<close> is \<^verbatim>\<open>LiteGraph.getTime()\<close>, and \<^verbatim>\<open>% 1\<close> on a
  non-negative number is its fractional part.
\<close>

definition draw_flow ::
  "real \<Rightarrow> point \<Rightarrow> point \<Rightarrow> LinkDirection \<Rightarrow> LinkDirection \<Rightarrow> string \<Rightarrow> ctx2d \<Rightarrow> ctx2d" where
  "draw_flow now a b startDir endDir colour cx =
     fold (\<lambda>i cx'. draw_op_add
                      (FillCircle (computeConnectionPoint a b
                                     (frac (now * 0.001 + real i * 0.2)) startDir endDir)) cx')
       [0..<5] (cx\<lparr>fillStyle := colour\<rparr>)"

text \<open>
  The fields of the segment that a call renders (\<^verbatim>\<open>reroute ?? link\<close>), before the call:
  its \<^verbatim>\<open>_pos\<close> and its \<^verbatim>\<open>_centreAngle\<close>.
\<close>

definition segment_pos :: "render_options \<Rightarrow> render_link option \<Rightarrow> point option" where
  "segment_pos opts lnk =
     (case reroute opts of
        Some r \<Rightarrow> centre_pos r
      | None \<Rightarrow> Option.bind lnk centre_pos)"

definition segment_angle :: "render_options \<Rightarrow> render_link option \<Rightarrow> real option" where
  "segment_angle opts lnk =
     (case reroute opts of
        Some r \<Rightarrow> centreAngle r
      | None \<Rightarrow> Option.bind lnk centreAngle)"

text \<open>\<^verbatim>\<open>num_sublines ||= 1\<close>.\<close>

definition subline_count :: "render_options \<Rightarrow> int" where
  "subline_count opts = (if num_sublines opts = 0 then 1 else num_sublines opts)"

text \<open>
  Before the loop: the new empty path, and \<^verbatim>\<open>pos\<close>, which is the segment's \<^verbatim>\<open>_pos\<close>
  array when it has one and a scratch array \<^verbatim>\<open>[0, 0]\<close> otherwise.
\<close>

definition first_subline :: "render_options \<Rightarrow> render_link option \<Rightarrow> subline_state" where
  "first_subline opts lnk =
     \<lparr>sl_path = [],
      sl_pos = (case segment_pos opts lnk of Some p \<Rightarrow> p | None \<Rightarrow> (0, 0)),
      sl_angle = segment_angle opts lnk\<rparr>"

definition render_loop ::
  "render_state \<Rightarrow> (real \<Rightarrow> real \<Rightarrow> real) \<Rightarrow> point \<Rightarrow> point \<Rightarrow> LinkDirection \<Rightarrow> LinkDirection
   \<Rightarrow> real option \<Rightarrow> render_options \<Rightarrow> bool \<Rightarrow> int \<Rightarrow> subline_state
   \<Rightarrow> subline_state option" where
  "render_loop rs atan2 a b startDir endDir dst opts marks n s0 =
     render_sublines (render_subline rs atan2 a b startDir endDir dst opts marks n)
       (map int [0..<nat n]) s0"

text \<open>The context before the loop.\<close>

definition prepare_ctx :: "canvas \<Rightarrow> render_state \<Rightarrow> render_options \<Rightarrow> ctx2d" where
  "prepare_ctx c rs opts =
     (let cx1 = (if render_connections_border rs \<and> ds_scale rs > 0.6
                 then (ctx rs)\<lparr>lineWidth := connections_width c + 4\<rparr> else ctx rs);
          cx2 = cx1\<lparr>lineJoin := ''round''\<rparr>
      in if subline_count opts > 1 then cx2\<lparr>lineWidth := 0.5\<rparr> else cx2)"

text \<open>The context after the loop has run to its end.\<close>

definition finish_ctx ::
  "canvas \<Rightarrow> render_state \<Rightarrow> (real \<Rightarrow> real \<Rightarrow> real) \<Rightarrow> real \<Rightarrow> point \<Rightarrow> point
   \<Rightarrow> LinkDirection \<Rightarrow> LinkDirection \<Rightarrow> bool \<Rightarrow> real \<Rightarrow> string \<Rightarrow> bool \<Rightarrow> subline_state
   \<Rightarrow> ctx2d \<Rightarrow> ctx2d" where
  "finish_ctx c rs atan2 now a b startDir endDir skip_border flow colour present s cx =
     (let cx4 = stroke_link c rs skip_border colour (sl_path s) cx;
          cx5 = (if ds_scale rs \<ge> 0.6 \<and> highquality_render rs \<and> present \<and> endDir \<noteq> CENTER
                 then draw_marker rs (sl_pos s) (sl_angle s)
                        (draw_arrows rs atan2 a b startDir endDir cx4)
                 else cx4)
      in if flow \<noteq> 0 then draw_flow now a b startDir endDir colour cx5 else cx5)"

text \<open>What a call leaves behind: the renderer, the link, the reroute and \<^verbatim>\<open>pos\<close>.\<close>

definition store_out ::
  "render_state \<Rightarrow> render_link option \<Rightarrow> render_options \<Rightarrow> subline_state \<Rightarrow> render_out" where
  "store_out rs lnk opts s =
     \<lparr>ro_state = rs,
      ro_link = (case reroute opts of
                   Some _ \<Rightarrow> lnk
                 | None \<Rightarrow> map_option (store_segment s) lnk),
      ro_reroute = map_option (store_segment s) (reroute opts),
      ro_pos = sl_pos s, ro_error = None\<rparr>"

text \<open>\<^verbatim>\<open>if (link) this.visible_links.push(link)\<close>.\<close>

definition push_visible :: "render_link option \<Rightarrow> render_state \<Rightarrow> render_state" where
  "push_visible lnk rs =
     (case lnk of None \<Rightarrow> rs | Some l \<Rightarrow> rs\<lparr>visible_links := visible_links rs @ [l]\<rparr>)"

definition renderLink ::
  "canvas \<Rightarrow> render_state \<Rightarrow> (real \<Rightarrow> real \<Rightarrow> real) \<Rightarrow> real \<Rightarrow> point \<Rightarrow> point
   \<Rightarrow> render_link option \<Rightarrow> bool \<Rightarrow> real \<Rightarrow> string option \<Rightarrow> LinkDirection \<Rightarrow> LinkDirection
   \<Rightarrow> render_options \<Rightarrow> render_out" where
  "renderLink c rs0 atan2 now a b lnk skip_border flow color start_dir end_dir opts =
     (let rs = push_visible lnk rs0
      in case linkColour c rs lnk color of
           Inl err \<Rightarrow>
             \<lparr>ro_state = rs, ro_link = lnk, ro_reroute = reroute opts, ro_pos = (0, 0),
              ro_error = Some err\<rparr>
         | Inr colour \<Rightarrow>
             let startDir = dir_or start_dir RIGHT;
                 endDir = dir_or end_dir LEFT;
                 dst = (if links_render_mode rs = SPLINE_LINK
                           \<and> (endControl opts = None \<or> startControl opts = None)
                        then Some (distance a b) else None);
                 cx = prepare_ctx c rs opts;
                 present = (reroute opts \<noteq> None \<or> lnk \<noteq> None);
                 marks = (present \<and> linkMarkerShape rs = Some Arrow)
             in case render_loop rs atan2 a b startDir endDir dst opts marks
                       (subline_count opts) (first_subline opts lnk) of
                  None \<Rightarrow> store_out (rs\<lparr>ctx := cx\<rparr>) lnk opts (first_subline opts lnk)
                | Some s \<Rightarrow>
                    store_out
                      (rs\<lparr>ctx := finish_ctx c rs atan2 now a b startDir endDir skip_border
                                    flow colour present s cx\<rparr>) lnk opts s)"

text \<open>The cache of the rendered segment, read after the call: \<^verbatim>\<open>_pos\<close> and \<^verbatim>\<open>path\<close>.\<close>

definition cached_pos :: "render_options \<Rightarrow> render_out \<Rightarrow> point option" where
  "cached_pos opts out =
     (case reroute opts of
        Some _ \<Rightarrow> Option.bind (ro_reroute out) centre_pos
      | None \<Rightarrow> Option.bind (ro_link out) centre_pos)"

definition cached_path :: "render_options \<Rightarrow> render_out \<Rightarrow> path2d option" where
  "cached_path opts out =
     (case reroute opts of
        Some _ \<Rightarrow> Option.bind (ro_reroute out) path
      | None \<Rightarrow> Option.bind (ro_link out) path)"

text \<open>
  The spec's words for a control point of the curved mode: the anchor, offset along its
  direction hint by 0.25 times the distance of the anchors. On the canvas, up is the
  direction of decreasing \<open>y\<close>.
\<close>

fun direction_vector :: "LinkDirection \<Rightarrow> point" where
  "direction_vector LEFT = (- 1, 0)"
| "direction_vector RIGHT = (1, 0)"
| "direction_vector UP = (0, - 1)"
| "direction_vector DOWN = (0, 1)"
| "direction_vector _ = (0, 0)"

definition control_point_spec :: "point \<Rightarrow> LinkDirection \<Rightarrow> real \<Rightarrow> point" where
  "control_point_spec anchor hint d =
     (fst anchor + 0.25 * d * fst (direction_vector hint),
      snd anchor + 0.25 * d * snd (direction_vector hint))"

text \<open>The spec's words for the centre: the cubic bezier at parameter one half.\<close>

definition bezier_half_spec :: "point \<Rightarrow> point \<Rightarrow> point \<Rightarrow> point \<Rightarrow> point" where
  "bezier_half_spec a ca cb b =
     ((fst a + 3 * fst ca + 3 * fst cb + fst b) / 8,
      (snd a + 3 * snd ca + 3 * snd cb + snd b) / 8)"

text \<open>
  The spec's words for the centre point and the path of a curved link whose direction
  hints default to RIGHT at the start and LEFT at the end.
\<close>

definition spline_centre_spec :: "point \<Rightarrow> point \<Rightarrow> LinkDirection \<Rightarrow> LinkDirection \<Rightarrow> point" where
  "spline_centre_spec a b start_dir end_dir =
     bezier_half_spec a
       (control_point_spec a (dir_or start_dir RIGHT) (distance a b))
       (control_point_spec b (dir_or end_dir LEFT) (distance a b)) b"

definition spline_path_spec :: "point \<Rightarrow> point \<Rightarrow> LinkDirection \<Rightarrow> LinkDirection \<Rightarrow> path2d" where
  "spline_path_spec a b start_dir end_dir =
     (let ca = control_point_spec a (dir_or start_dir RIGHT) (distance a b);
          cb = control_point_spec b (dir_or end_dir LEFT) (distance a b)
      in [MoveTo (fst a) (snd a),
          BezierCurveTo (fst ca) (snd ca) (fst cb) (snd cb) (fst b) (snd b)])"

section \<open>Selecting by pointer\<close>

text \<open>\<^verbatim>\<open>processSelect\<close>; the event may be null.\<close>

definition processSelect :: "item option \<Rightarrow> pointer_event option \<Rightarrow> bool \<Rightarrow> canvas \<Rightarrow> canvas" where
  "processSelect it e sticky c =
     (let addModifier = (case e of None \<Rightarrow> False | Some ev \<Rightarrow> shiftKey ev);
          subtractModifier = (case e of None \<Rightarrow> False | Some ev \<Rightarrow> metaKey ev \<or> ctrlKey ev);
          eitherModifier = (addModifier \<or> subtractModifier);
          modifySelection = (eitherModifier \<or> multi_select c)
      in case it of
           None \<Rightarrow>
             log_call OnSelectionChange
               (if \<not> eitherModifier \<or> multi_select c then deselectAll None c else c)
         | Some i \<Rightarrow>
             if \<not> selected c i \<or> i \<notin> set (selectedItems c)
             then log_call OnSelectionChange
                    (select i (if \<not> modifySelection then deselectAll (Some i) c else c))
             else if modifySelection \<and> \<not> sticky then log_call OnSelectionChange (deselect i c)
             else if \<not> sticky then log_call OnSelectionChange (deselectAll (Some i) c)
             else c)"

section \<open>Settings of the library\<close>

text \<open>The static settings of \<^verbatim>\<open>LiteGraph\<close> that the handlers read; its source is missing.\<close>

record litegraph =
  alt_drag_do_clone_nodes :: bool
  shift_click_do_break_link_from :: bool
  ctrl_alt_click_do_break_link :: bool
  click_do_break_link_to :: bool
  middle_click_slot_add_default_node :: bool
  release_link_on_empty_shows_menu :: bool
  alwaysSnapToGrid :: bool
  DEFAULT_GROUP_FONT_SIZE :: real

section \<open>Hooks\<close>

definition set_pointer :: "(canvas_pointer \<Rightarrow> canvas_pointer) \<Rightarrow> canvas \<Rightarrow> canvas" where
  "set_pointer f c = c\<lparr>pointer := f (pointer c)\<rparr>"

text \<open>\<^verbatim>\<open>#startDraggingItems\<close>.\<close>

definition startDraggingItems :: "item \<Rightarrow> bool \<Rightarrow> canvas \<Rightarrow> canvas" where
  "startDraggingItems it sticky c =
     (let c1 = log_call GraphBeforeChange (log_call EmitBeforeChange c);
          c2 = set_pointer (\<lambda>p. p\<lparr>finally_hook := Some FinallyItems\<rparr>) c1;
          c3 = processSelect (Some it) (eDown (pointer c2)) sticky c2
      in c3\<lparr>isDragging := True\<rparr>)"

text \<open>\<^verbatim>\<open>#processDraggedItems\<close>.\<close>

definition processDraggedItems :: "litegraph \<Rightarrow> pointer_event \<Rightarrow> canvas \<Rightarrow> canvas" where
  "processDraggedItems lg e c =
     (let c1 = (if shiftKey e \<or> alwaysSnapToGrid lg
                then log_call (SnapToGrid (selectedItems c)) c else c)
      in log_call (OnNodeMoved (selectedItems c1)) c1)"

text \<open>
  The closures assigned to \<^verbatim>\<open>pointer.finally\<close>. The one of \<^verbatim>\<open>#startDraggingItems\<close> ends
  the drag and closes the change bracket. The one of \<^verbatim>\<open>#processWidgetClick\<close> passes the
  release event to the legacy \<^verbatim>\<open>mouse\<close> callback of the widget: it reads
  \<^verbatim>\<open>pointer.eUp\<close> and destructures it, which throws when the session has seen no
  release, before the callback is called and before \<^verbatim>\<open>node_widget\<close> is cleared.
\<close>

fun run_final :: "final_hook \<Rightarrow> canvas \<Rightarrow> outcome" where
  "run_final FinallyRectangle c = Inr (c\<lparr>dragging_rectangle := None\<rparr>)"
| "run_final FinallyCanvas c = Inr (c\<lparr>dragging_canvas := False\<rparr>)"
| "run_final FinallyResizeGroup c = Inr (c\<lparr>resizingGroup := None\<rparr>)"
| "run_final FinallyResizeNode c = Inr (c\<lparr>resizing_node := None\<rparr>)"
| "run_final FinallyItems c =
     Inr (log_call EmitAfterChange (log_call (GraphAfterChange None) (c\<lparr>isDragging := False\<rparr>)))"
| "run_final (FinallyWidget n w) c =
     (if w_has_mouse w
      then (case eUp (pointer c) of
              None \<Rightarrow> Inl (ReadOfNull, c)
            | Some _ \<Rightarrow> Inr ((log_call (WidgetCallback n w ''mouse'') c)\<lparr>node_widget := None\<rparr>))
      else Inr (c\<lparr>node_widget := None\<rparr>))"

text \<open>
  A connection that a press starts is one object, held by \<^verbatim>\<open>connecting_links\<close> and by the
  closure that completes it when the drag starts: the closure's write is a write to the
  first pending link.
\<close>

definition update_first_link ::
  "(connecting_link \<Rightarrow> connecting_link) \<Rightarrow> canvas \<Rightarrow> canvas" where
  "update_first_link f c =
     c\<lparr>connecting_links :=
          map_option (\<lambda>ls. case ls of [] \<Rightarrow> [] | l # rest \<Rightarrow> f l # rest) (connecting_links c)\<rparr>"

text \<open>
  The closures assigned to the other hooks, run with the event that the pointer session
  passes. The rectangle of a multi-select is an array shared with
  \<^verbatim>\<open>dragging_rectangle\<close>: it is read through that field, and as captured at the press
  when the field is null. Resizing is logged with the size the pointer asks for, before
  snapping and clamping, which belong to the graph.
\<close>

fun run_hook :: "litegraph \<Rightarrow> graph \<Rightarrow> hook \<Rightarrow> pointer_event \<Rightarrow> canvas \<Rightarrow> canvas" where
  "run_hook lg g (ClickMultiSelect nd) e c =
     (let rr = (if reroutesEnabled c then getRerouteOnPos g (canvasX e) (canvasY e) else None);
          clickedItem = (case nd of
                           Some n \<Rightarrow> Some n
                         | None \<Rightarrow> (case rr of
                                      Some r \<Rightarrow> Some r
                                    | None \<Rightarrow> getGroupTitlebarOnPos g (canvasX e) (canvasY e)))
      in processSelect clickedItem (Some e) False c)"
| "run_hook lg g (ClickSelect it ev) e c = processSelect it (Some ev) False c"
| "run_hook lg g (ClickShowLinkMenu seg ev) e c = log_call (ShowLinkMenu seg ev) c"
| "run_hook lg g (ClickCollapse n) e c = log_call (Collapse n) c"
| "run_hook lg g (ClickOutput n i) e c = log_call (NodeCallback n ''onOutputClick'' [i]) c"
| "run_hook lg g (ClickInput n i) e c = log_call (NodeCallback n ''onInputClick'' [i]) c"
| "run_hook lg g (ClickWidget n w) e c = log_call (WidgetCallback n w ''click'') c"
| "run_hook lg g (ClickDefaultNode n i isOut) e c = log_call (CreateDefaultNodeForSlot n i isOut) c"
| "run_hook lg g (DragStartRectangle r) e c = c\<lparr>dragging_rectangle := Some r\<rparr>"
| "run_hook lg g (DragStartClone cloned) e c =
     startDraggingItems cloned False (log_call (GraphAdd cloned) c)"
| "run_hook lg g (DragStartSetOutput out) e c = update_first_link (\<lambda>l. l\<lparr>cl_output := out\<rparr>) c"
| "run_hook lg g (DragStartSetInput inp) e c =
     update_first_link (\<lambda>l. l\<lparr>cl_input := Some inp\<rparr>) c"
| "run_hook lg g (DragStartReconnect n i out) e c =
     update_first_link (\<lambda>l. l\<lparr>cl_output := out\<rparr>)
       (if allow_reconnect_links c \<and> \<not> click_do_break_link_to lg
        then log_call (DisconnectInput n i) c else c)"
| "run_hook lg g (DragStartItems it sticky) e c = startDraggingItems it sticky c"
| "run_hook lg g (DragStartGroup grp) e c =
     startDraggingItems grp True (log_call (RecomputeInsideNodes grp) c)"
| "run_hook lg g DragStartCanvas e c = c\<lparr>dragging_canvas := True\<rparr>"
| "run_hook lg g (DragStartResizeGroup grp) e c = c\<lparr>resizingGroup := Some grp\<rparr>"
| "run_hook lg g (DragStartResizeNode n) e c =
     (log_call GraphBeforeChange c)\<lparr>resizing_node := Some n\<rparr>"
| "run_hook lg g (DragResizeGroup grp offsetX offsetY) e c =
     (if read_only c then c
      else log_call (ResizeGroup grp (canvasX e - fst (item_pos g grp) - offsetX,
                                      canvasY e - snd (item_pos g grp) - offsetY)) c)"
| "run_hook lg g (DragResizeNode n offsetX offsetY) e c =
     (if read_only c then c
      else log_call (ResizeNode n (canvasX e - fst (item_pos g n) - offsetX,
                                   canvasY e - snd (item_pos g n) - offsetY)) c)"
| "run_hook lg g (DragWidget n w) e c = log_call (WidgetCallback n w ''drag'') c"
| "run_hook lg g (DragEndMultiSelect r) e c =
     handleMultiSelect g e (case dragging_rectangle c of Some shared \<Rightarrow> shared | None \<Rightarrow> r) c"
| "run_hook lg g DragEndItems e c = processDraggedItems lg e c"
| "run_hook lg g DragEndResizeNode e c = log_call (GraphAfterChange (resizing_node c)) c"
| "run_hook lg g (DoubleClickOutput n i) e c =
     log_call (NodeCallback n ''onOutputDblClick'' [i]) c"
| "run_hook lg g (DoubleClickInput n i) e c =
     log_call (NodeCallback n ''onInputDblClick'' [i]) c"
| "run_hook lg g (DoubleClickNode n p inCollapse) e c =
     (let c1 = (if snd p < 0 \<and> \<not> inCollapse
                then log_call (NodeCallback n ''onNodeTitleDblClick'' []) c else c);
          c2 = log_call (NodeCallback n ''onDblClick'' []) c1
      in log_call (NodeCallback n ''onNodeDblClicked'' [])
           (log_call (NodeCallback n ''onShowNodePanel'' []) c2))"
| "run_hook lg g (DoubleClickGroup ev grp) e c = log_call (EmitEvent (GroupDoubleClick ev grp)) c"
| "run_hook lg g (DoubleClickEmpty ev) e c =
     log_call (EmitEvent (EmptyDoubleClick ev))
       (if allow_searchbox c then log_call (ShowSearchBox ev) c else c)"

definition run_hook_opt ::
  "litegraph \<Rightarrow> graph \<Rightarrow> hook option \<Rightarrow> pointer_event \<Rightarrow> canvas \<Rightarrow> canvas" where
  "run_hook_opt lg g h e c = (case h of None \<Rightarrow> c | Some k \<Rightarrow> run_hook lg g k e c)"

section \<open>The pointer session\<close>

text \<open>
  Modelled from the spec: \<^verbatim>\<open>CanvasPointer.reset\<close>, whose source is missing. It
  ``unconditionally clears all session state'', a cancelled session ``must still invoke
  \<^verbatim>\<open>finally\<close>'', and \<^verbatim>\<open>finally\<close> is never invoked twice: the hook, if set, is taken out
  of its slot and runs once, and every slot and flag of the session is cleared. A hook
  that throws ends the reset there: the rest of the session is not cleared.
\<close>

definition clear_session :: "canvas \<Rightarrow> canvas" where
  "clear_session c =
     c\<lparr>pointer :=
         \<lparr>isDown = False, isDouble = False, dragStarted = False, eDown = None, eUp = None,
          onClick = None, onDoubleClick = None, onDragStart = None, onDrag = None,
          onDragEnd = None, finally_hook = None\<rparr>\<rparr>"

definition pointer_reset :: "canvas \<Rightarrow> outcome" where
  "pointer_reset c =
     (case finally_hook (pointer c) of
        None \<Rightarrow> Inr (clear_session c)
      | Some f \<Rightarrow>
          (case run_final f (set_pointer (\<lambda>p. p\<lparr>finally_hook := None\<rparr>) c) of
             Inl err \<Rightarrow> Inl err
           | Inr c1 \<Rightarrow> Inr (clear_session c1)))"

text \<open>
  Modelled from the spec: \<^verbatim>\<open>CanvasPointer.down\<close>, whose source is missing: it ``records
  press position/time and resets hooks''. A new press is not yet a drag.
\<close>

definition pointer_down :: "pointer_event \<Rightarrow> canvas \<Rightarrow> canvas" where
  "pointer_down e c =
     set_pointer
       (\<lambda>p. p\<lparr>eDown := Some e, dragStarted := False, onClick := None, onDoubleClick := None,
              onDragStart := None, onDrag := None, onDragEnd := None, finally_hook := None\<rparr>) c"


text \<open>
  Modelled from the spec: \<^verbatim>\<open>CanvasPointer.up\<close>, whose source is missing: it ``returns true
  when the session never exceeded the movement/time threshold and dispatches
  \<^verbatim>\<open>onClick\<close>; otherwise dispatches \<^verbatim>\<open>onDragEnd\<close>''; a double click ``suppresses the normal
  single-click branch, instead invoking \<^verbatim>\<open>onDoubleClick\<close> if set''; ``in both outcomes, the
  \<^verbatim>\<open>finally\<close> hook, if set, is always invoked exactly once'', and the session is reset
  between cycles. The release event is recorded before anything is dispatched, so the
  \<^verbatim>\<open>finally\<close> hook finds it and the reset returns.
\<close>

definition pointer_up :: "litegraph \<Rightarrow> graph \<Rightarrow> pointer_event \<Rightarrow> canvas \<Rightarrow> bool \<times> canvas" where
  "pointer_up lg g e c0 =
     (let c = set_pointer (\<lambda>p. p\<lparr>eUp := Some e\<rparr>) c0;
          p = pointer c;
          isClick = (\<not> dragStarted p);
          c1 = (if dragStarted p then run_hook_opt lg g (onDragEnd p) e c
                else if isDouble p then run_hook_opt lg g (onDoubleClick p) e c
                else run_hook_opt lg g (onClick p) e c)
      in (isClick, state_of (pointer_reset c1)))"

section \<open>Pointer down\<close>

definition nth_opt :: "'a list \<Rightarrow> nat \<Rightarrow> 'a option" where
  "nth_opt xs i = (if i < length xs then Some (xs ! i) else None)"

text \<open>The slot hit box of a press: 30 by 20 units around the connection position.\<close>

definition in_slot_box :: "graph \<Rightarrow> item \<Rightarrow> bool \<Rightarrow> real \<Rightarrow> real \<Rightarrow> nat \<Rightarrow> bool" where
  "in_slot_box g n is_input x y i =
     (let link_pos = getConnectionPos g n is_input i
      in isInRectangle x y (fst link_pos - 15) (snd link_pos - 10) 30 20)"

text \<open>\<^verbatim>\<open>#processWidgetClick\<close>. What a widget does with its value is logged, not modelled.\<close>

definition processWidgetClick :: "item \<Rightarrow> widget \<Rightarrow> canvas \<Rightarrow> canvas" where
  "processWidgetClick n w c =
     (let c1 = (case w_onPointerDown w of
                  None \<Rightarrow> c
                | Some _ \<Rightarrow> log_call (WidgetCallback n w ''onPointerDown'') c)
      in if w_onPointerDown w = Some True then c1
         else
           let c2 =
             (if w_type w = ''button'' then set_pointer (\<lambda>p. p\<lparr>onClick := Some (ClickWidget n w)\<rparr>) c1
              else if w_type w = ''slider''
                then (if w_read_only w then c1
                      else set_pointer (\<lambda>p. p\<lparr>onDrag := Some (DragWidget n w)\<rparr>) c1)
              else if w_type w = ''number''
                then set_pointer (\<lambda>p. p\<lparr>onClick := Some (ClickWidget n w),
                                        onDrag := Some (DragWidget n w)\<rparr>) c1
              else if w_type w = ''combo'' \<or> w_type w = ''toggle'' \<or> w_type w = ''string''
                      \<or> w_type w = ''text''
                then set_pointer (\<lambda>p. p\<lparr>onClick := Some (ClickWidget n w)\<rparr>) c1
              else if w_has_mouse w then log_call (WidgetCallback n w ''mouse'') c1
              else c1)
           in set_pointer (\<lambda>p. p\<lparr>finally_hook := Some (FinallyWidget n w)\<rparr>) c2)"

text \<open>The pending connections of a shift-press on an output that has links.\<close>

definition links_of_output :: "graph \<Rightarrow> item \<Rightarrow> nat list \<Rightarrow> connecting_link list" where
  "links_of_output g n ids =
     map (\<lambda>linkId.
            let lk = links_get g linkId;
                slot = l_target_slot lk;
                linked_node = nodes_by_id g (l_target_id lk)
            in \<lparr>cl_node = linked_node, cl_slot = slot,
                cl_input = nth_opt (inputs linked_node) slot, cl_output = None,
                cl_pos = getConnectionPos g linked_node True slot, afterRerouteId = None,
                cl_direction = Some (if \<not> horizontal g n then RIGHT else CENTER)\<rparr>) ids"

text \<open>A press on output \<open>i\<close> of the node: the body of the loop over the outputs.\<close>

definition press_output ::
  "litegraph \<Rightarrow> graph \<Rightarrow> pointer_event \<Rightarrow> bool \<Rightarrow> item \<Rightarrow> nat \<Rightarrow> canvas \<Rightarrow> canvas" where
  "press_output lg g e ctrlOrMeta n i c =
     (let output = outputs n ! i;
          link_pos = getConnectionPos g n False i
      in if shiftKey e \<and> (case links output of None \<Rightarrow> False | Some ls \<Rightarrow> ls \<noteq> [])
         then c\<lparr>connecting_links := Some (links_of_output g n (the (links output)))\<rparr>
         else
           let c1 = c\<lparr>connecting_links :=
                         Some [\<lparr>cl_node = n, cl_slot = i, cl_input = None,
                                cl_output = Some output, cl_pos = link_pos,
                                afterRerouteId = None, cl_direction = None\<rparr>]\<rparr>;
               c2 = (if shift_click_do_break_link_from lg
                     then (if shiftKey e then log_call (DisconnectOutput n i) c1 else c1)
                     else if ctrl_alt_click_do_break_link lg
                     then (if ctrlOrMeta \<and> altKey e \<and> \<not> shiftKey e
                           then log_call (DisconnectOutput n i) c1 else c1)
                     else c1)
           in set_pointer (\<lambda>p. p\<lparr>onDoubleClick := Some (DoubleClickOutput n i),
                                   onClick := Some (ClickOutput n i)\<rparr>) c2)"

text \<open>A press on input \<open>i\<close> of the node: the body of the loop over the inputs.\<close>

definition press_input ::
  "litegraph \<Rightarrow> graph \<Rightarrow> pointer_event \<Rightarrow> bool \<Rightarrow> item \<Rightarrow> nat \<Rightarrow> canvas \<Rightarrow> canvas" where
  "press_input lg g e ctrlOrMeta n i c =
     (let input = inputs n ! i;
          link_pos = getConnectionPos g n True i;
          c1 = set_pointer (\<lambda>p. p\<lparr>onDoubleClick := Some (DoubleClickInput n i),
                                   onClick := Some (ClickInput n i)\<rparr>) c;
          c2 = (case link input of
                  None \<Rightarrow> c1
                | Some linkId \<Rightarrow>
                    let link_info = links_get g linkId;
                        slot = l_origin_slot link_info;
                        linked_node = nodes_by_id g (l_origin_id link_info)
                    in if click_do_break_link_to lg
                          \<or> (ctrl_alt_click_do_break_link lg \<and> ctrlOrMeta \<and> altKey e
                                \<and> \<not> shiftKey e)
                       then log_call (DisconnectInput n i) c1
                       else if shiftKey e \<or> allow_reconnect_links c1
                       then set_pointer
                              (\<lambda>p. p\<lparr>onDragStart :=
                                        Some (DragStartReconnect n i
                                                (nth_opt (outputs linked_node) slot))\<rparr>)
                              (c1\<lparr>connecting_links :=
                                    Some [\<lparr>cl_node = linked_node, cl_slot = slot,
                                           cl_input = None,
                                           cl_output = nth_opt (outputs linked_node) slot,
                                           cl_pos = getConnectionPos g linked_node False slot,
                                           afterRerouteId = None, cl_direction = None\<rparr>]\<rparr>)
                       else c1)
      in if onDragStart (pointer c2) = None
         then set_pointer (\<lambda>p. p\<lparr>onDragStart := Some (DragStartSetInput input)\<rparr>)
                (c2\<lparr>connecting_links :=
                      Some [\<lparr>cl_node = n, cl_slot = i, cl_input = None, cl_output = None,
                             cl_pos = link_pos, afterRerouteId = None,
                             cl_direction = None\<rparr>]\<rparr>)
         else c2)"

text \<open>
  The end of \<^verbatim>\<open>#processNodeClick\<close>: the press was inside the node, but not on a slot or
  the resize corner. Without a widget under the pointer the node may be dragged, unless
  its \<^verbatim>\<open>onMouseDown\<close> callback blocks it.
\<close>

definition press_node_plain :: "graph \<Rightarrow> pointer_event \<Rightarrow> item \<Rightarrow> bool \<Rightarrow> canvas \<Rightarrow> canvas" where
  "press_node_plain g e n inCollapse c =
     (let p = (canvasX e - fst (item_pos g n), canvasY e - snd (item_pos g n));
          c1 = set_pointer (\<lambda>q. q\<lparr>onDoubleClick := Some (DoubleClickNode n p inCollapse)\<rparr>) c;
          c2 = log_call (NodeCallback n ''onMouseDown'' []) c1
      in if node_onMouseDown g n \<or> \<not> allow_dragnodes c2 then c2
         else set_pointer (\<lambda>q. q\<lparr>onDragStart := Some (DragStartItems n True),
                                 onDragEnd := Some DragEndItems\<rparr>) c2)"

definition press_node_body :: "graph \<Rightarrow> pointer_event \<Rightarrow> item \<Rightarrow> bool \<Rightarrow> canvas \<Rightarrow> canvas" where
  "press_node_body g e n inCollapse c =
     (case getWidgetOnPos g n (canvasX e) (canvasY e) of
        Some w \<Rightarrow> (processWidgetClick n w c)\<lparr>node_widget := Some (n, w)\<rparr>
      | None \<Rightarrow> press_node_plain g e n inCollapse c)"

text \<open>\<^verbatim>\<open>#processNodeClick\<close>.\<close>

definition processNodeClick ::
  "litegraph \<Rightarrow> graph \<Rightarrow> pointer_event \<Rightarrow> bool \<Rightarrow> item \<Rightarrow> canvas \<Rightarrow> canvas" where
  "processNodeClick lg g e ctrlOrMeta n c0 =
     (let x = canvasX e; y = canvasY e;
          c1 = set_pointer (\<lambda>p. p\<lparr>onClick := Some (ClickSelect (Some n) e)\<rparr>) c0;
          c = (if \<not> flags_pinned g n then log_call (BringToFront n) c1 else c1);
          inCollapse = isPointInCollapse g n x y
      in if inCollapse
         then press_node_body g e n inCollapse
                (set_pointer (\<lambda>p. p\<lparr>onClick := Some (ClickCollapse n)\<rparr>) c)
         else if flags_collapsed g n then press_node_body g e n inCollapse c
         else if resizable g n \<and> inResizeCorner g n x y
         then
           (let b = boundingRect g n;
                offsetX = x - (fst b + fst (snd (snd b)));
                offsetY = y - (fst (snd b) + snd (snd (snd b)))
            in set_pointer
                 (\<lambda>p. p\<lparr>onDragStart := Some (DragStartResizeNode n),
                        onDrag := Some (DragResizeNode n offsetX offsetY),
                        onDragEnd := Some DragEndResizeNode,
                        finally_hook := Some FinallyResizeNode\<rparr>) c)
         else
           (case find (in_slot_box g n False x y) [0..<length (outputs n)] of
              Some i \<Rightarrow> press_output lg g e ctrlOrMeta n i c
            | None \<Rightarrow>
                (case find (in_slot_box g n True x y) [0..<length (inputs n)] of
                   Some i \<Rightarrow> press_input lg g e ctrlOrMeta n i c
                 | None \<Rightarrow> press_node_body g e n inCollapse c)))"

text \<open>The centre marker of a rendered link: 8 by 8 units around its cached centre.\<close>

definition on_link_centre :: "real \<Rightarrow> real \<Rightarrow> link_segment \<Rightarrow> bool" where
  "on_link_centre x y seg =
     (case centre_pos seg of
        None \<Rightarrow> False
      | Some centre \<Rightarrow> isInRectangle x y (fst centre - 4) (snd centre - 4) 8 8)"

text \<open>
  The loop of a press over the rendered paths. \<open>None\<close> says that no segment took the
  press; \<open>Some\<close> is the \<^verbatim>\<open>return\<close> out of the loop. The stroke test of the browser is
  asked with the line width that the press has set.
\<close>

fun press_links ::
  "graph \<Rightarrow> pointer_event \<Rightarrow> link_segment list \<Rightarrow> canvas \<Rightarrow> canvas option" where
  "press_links g e [] c = None"
| "press_links g e (linkSegment # rest) c =
     (let x = canvasX e; y = canvasY e;
          dpi = (case devicePixelRatio g of
                   None \<Rightarrow> 1
                 | Some r \<Rightarrow> if r = 0 then 1 else r)
      in if centre_pos linkSegment = None then press_links g e rest c
         else if (shiftKey e \<or> altKey e)
                 \<and> (case path linkSegment of
                       None \<Rightarrow> False
                     | Some p \<Rightarrow> isPointInStroke g (ctx_lineWidth c) p (x * dpi) (y * dpi))
         then
           (if shiftKey e \<and> \<not> altKey e
            then
              (let slot = origin_slot linkSegment;
                   originNode = nodes_by_id g (origin_id linkSegment);
                   connecting =
                     \<lparr>cl_node = originNode, cl_slot = slot, cl_input = None, cl_output = None,
                      cl_pos = getConnectionPos g originNode False slot,
                      afterRerouteId = (case parentId linkSegment of
                                          None \<Rightarrow> None
                                        | Some pid \<Rightarrow> if pid = 0 then None else Some pid),
                      cl_direction = None\<rparr>
               in Some (set_pointer
                          (\<lambda>p. p\<lparr>onDragStart :=
                                    Some (DragStartSetOutput (nth_opt (outputs originNode) slot))\<rparr>)
                          (c\<lparr>connecting_links := Some [connecting]\<rparr>)))
            else if reroutesEnabled c \<and> altKey e \<and> \<not> shiftKey e
            then
              (let newReroute = createReroute g (x, y) linkSegment
               in Some (set_pointer
                          (\<lambda>p. p\<lparr>onDragStart := Some (DragStartItems newReroute False),
                                 onDragEnd := Some DragEndItems\<rparr>)
                          (log_call (CreateReroute (x, y) linkSegment) c)))
            else press_links g e rest c)
         else if on_link_centre x y linkSegment
         then Some (set_pointer
                      (\<lambda>p. p\<lparr>onClick := Some (ClickShowLinkMenu linkSegment e),
                             onDragStart := Some DragStartCanvas,
                             finally_hook := Some FinallyCanvas\<rparr>) c)
         else press_links g e rest c)"

text \<open>A press on a reroute marker.\<close>

definition press_reroute :: "graph \<Rightarrow> pointer_event \<Rightarrow> item \<Rightarrow> canvas \<Rightarrow> canvas" where
  "press_reroute g e rr c =
     (let c1 =
        (if shiftKey e
         then
           (let lk = links_get g (reroute_first_link g rr);
                outputNode = nodes_by_id g (l_origin_id lk);
                slot = l_origin_slot lk;
                connecting =
                  \<lparr>cl_node = outputNode, cl_slot = slot, cl_input = None, cl_output = None,
                   cl_pos = getConnectionPos g outputNode False slot,
                   afterRerouteId = Some (item_id rr), cl_direction = None\<rparr>
            in set_pointer
                 (\<lambda>p. p\<lparr>onDragStart :=
                           Some (DragStartSetOutput (nth_opt (outputs outputNode) slot))\<rparr>)
                 (c\<lparr>connecting_links := Some [connecting]\<rparr>))
         else c);
          c2 = set_pointer (\<lambda>p. p\<lparr>onClick := Some (ClickSelect (Some rr) e)\<rparr>) c1
      in if onDragStart (pointer c2) = None
         then set_pointer (\<lambda>p. p\<lparr>onDragStart := Some (DragStartItems rr True),
                                 onDragEnd := Some DragEndItems\<rparr>) c2
         else c2)"

text \<open>A press that hit no node, no reroute and no link: groups, then the empty canvas.\<close>

definition press_groups :: "litegraph \<Rightarrow> graph \<Rightarrow> pointer_event \<Rightarrow> canvas \<Rightarrow> canvas" where
  "press_groups lg g e c0 =
     (let x = canvasX e; y = canvasY e;
          grp = getGroupOnPos g x y;
          c = c0\<lparr>selected_group := grp\<rparr>
      in case grp of
           None \<Rightarrow> set_pointer (\<lambda>p. p\<lparr>onDoubleClick := Some (DoubleClickEmpty e)\<rparr>) c
         | Some gr \<Rightarrow>
             let c1 =
               (if isInResize g gr x y
                then
                  (let b = boundingRect g gr;
                       offsetX = x - (fst b + fst (snd (snd b)));
                       offsetY = y - (fst (snd b) + snd (snd (snd b)))
                   in set_pointer
                        (\<lambda>p. p\<lparr>onDragStart := Some (DragStartResizeGroup gr),
                               onDrag := Some (DragResizeGroup gr offsetX offsetY),
                               finally_hook := Some FinallyResizeGroup\<rparr>) c)
                else
                  (let f = (case font_size g gr of
                              None \<Rightarrow> DEFAULT_GROUP_FONT_SIZE lg
                            | Some v \<Rightarrow> if v = 0 then DEFAULT_GROUP_FONT_SIZE lg else v);
                       headerHeight = f * 1.4
                   in if isInRectangle x y (fst (item_pos g gr)) (snd (item_pos g gr))
                           (fst (item_size g gr)) headerHeight
                      then set_pointer
                             (\<lambda>p. p\<lparr>onClick := Some (ClickSelect (Some gr) e),
                                    onDragStart := Some (DragStartGroup gr),
                                    onDragEnd := Some DragEndItems\<rparr>) c
                      else c))
             in set_pointer (\<lambda>p. p\<lparr>onDoubleClick := Some (DoubleClickGroup e gr)\<rparr>) c1)"

text \<open>The last statement of \<^verbatim>\<open>#processPrimaryButton\<close>: the press pans the canvas.\<close>

definition press_fallback :: "pointer_event \<Rightarrow> canvas \<Rightarrow> canvas" where
  "press_fallback e c =
     (if onDragStart (pointer c) = None \<and> onClick (pointer c) = None
         \<and> onDrag (pointer c) = None \<and> allow_dragcanvas c
      then (set_pointer (\<lambda>p. p\<lparr>onClick := Some (ClickSelect None e),
                               finally_hook := Some FinallyCanvas\<rparr>) c)
             \<lparr>dragging_canvas := True\<rparr>
      else c)"

text \<open>
  \<^verbatim>\<open>#processPrimaryButton\<close> from the comment ``Node clicked'' on: the node \<open>nd\<close> under the
  pointer, if any, then the reroutes, the links, the groups and the canvas.
\<close>

definition press_items ::
  "litegraph \<Rightarrow> graph \<Rightarrow> pointer_event \<Rightarrow> item option \<Rightarrow> canvas \<Rightarrow> canvas" where
  "press_items lg g e nd c =
     (let x = canvasX e; y = canvasY e;
          ctrlOrMeta = (ctrlKey e \<or> metaKey e)
      in case (case nd of
                 None \<Rightarrow> None
               | Some n \<Rightarrow> if allow_interaction c \<or> flags_allow_interaction g n
                           then Some n else None) of
           Some n \<Rightarrow> press_fallback e (processNodeClick lg g e ctrlOrMeta n c)
         | None \<Rightarrow>
             (case (if reroutesEnabled c then getRerouteOnPos g x y else None) of
                Some rr \<Rightarrow> press_reroute g e rr c
              | None \<Rightarrow>
                  let lineWidth = ctx_lineWidth c;
                      c1 = c\<lparr>ctx_lineWidth := connections_width c + 7\<rparr>
                  in case press_links g e (renderedPaths g) c1 of
                       Some c2 \<Rightarrow> c2
                     | None \<Rightarrow>
                         press_fallback e
                           (press_groups lg g e (c1\<lparr>ctx_lineWidth := lineWidth\<rparr>))))"

text \<open>
  \<^verbatim>\<open>#processPrimaryButton\<close>; \<open>nd\<close> is the node under the pointer, if any. With \<^verbatim>\<open>alt\<close> held
  the node is cloned: when \<^verbatim>\<open>clone()\<close> returns \<^verbatim>\<open>null\<close> the read of \<^verbatim>\<open>node_data.type\<close>
  throws, and when \<^verbatim>\<open>createNode\<close> returns \<^verbatim>\<open>null\<close> the press goes on to the node.
\<close>

definition processPrimaryButton ::
  "litegraph \<Rightarrow> graph \<Rightarrow> pointer_event \<Rightarrow> item option \<Rightarrow> canvas \<Rightarrow> outcome" where
  "processPrimaryButton lg g e nd c =
     (let x = canvasX e; y = canvasY e;
          ctrlOrMeta = (ctrlKey e \<or> metaKey e)
      in if ctrlOrMeta \<and> \<not> altKey e
         then Inr (set_pointer
                     (\<lambda>p. p\<lparr>onClick := Some (ClickMultiSelect nd),
                            onDragStart := Some (DragStartRectangle (x, y, 1, 1)),
                            onDragEnd := Some (DragEndMultiSelect (x, y, 1, 1)),
                            finally_hook := Some FinallyRectangle\<rparr>) c)
         else if read_only c
         then Inr ((set_pointer (\<lambda>p. p\<lparr>finally_hook := Some FinallyCanvas\<rparr>) c)
                     \<lparr>dragging_canvas := True\<rparr>)
         else
           case nd of
             None \<Rightarrow> Inr (press_items lg g e nd c)
           | Some n \<Rightarrow>
               if alt_drag_do_clone_nodes lg \<and> altKey e \<and> \<not> ctrlKey e \<and> allow_interaction c
               then
                 (case clone_node g n of
                    CloneNull \<Rightarrow> Inl (ReadOfNull, c)
                  | CreateNull \<Rightarrow> Inr (press_items lg g e nd c)
                  | Cloned cl \<Rightarrow>
                      if allow_dragnodes c
                      then Inr (set_pointer
                                  (\<lambda>p. p\<lparr>onDragStart := Some (DragStartClone cl),
                                         onDragEnd := Some DragEndItems\<rparr>) c)
                      else Inr (log_call (GraphAfterChange None)
                                  (log_call (GraphAdd cl) (log_call GraphBeforeChange c))))
               else Inr (press_items lg g e nd c))"

text \<open>\<^verbatim>\<open>#processMiddleButton\<close>: a slot under the pointer, inputs after outputs.\<close>

definition processMiddleButton ::
  "litegraph \<Rightarrow> graph \<Rightarrow> pointer_event \<Rightarrow> item option \<Rightarrow> canvas \<Rightarrow> canvas" where
  "processMiddleButton lg g e nd c =
     (let x = canvasX e; y = canvasY e;
          c1 = (case nd of
                  None \<Rightarrow> c
                | Some n \<Rightarrow>
                    if middle_click_slot_add_default_node lg \<and> allow_interaction c
                       \<and> \<not> read_only c \<and> connecting_links c = None \<and> \<not> flags_collapsed g n
                    then
                      (case find (in_slot_box g n True x y) [0..<length (inputs n)] of
                         Some i \<Rightarrow>
                           set_pointer (\<lambda>p. p\<lparr>onClick := Some (ClickDefaultNode n i False)\<rparr>) c
                       | None \<Rightarrow>
                           (case find (in_slot_box g n False x y) [0..<length (outputs n)] of
                              Some i \<Rightarrow>
                                set_pointer
                                  (\<lambda>p. p\<lparr>onClick := Some (ClickDefaultNode n i True)\<rparr>) c
                            | None \<Rightarrow> c))
                    else c)
      in if allow_dragcanvas c1
         then set_pointer (\<lambda>p. p\<lparr>onDragStart := Some DragStartCanvas,
                                 finally_hook := Some FinallyCanvas\<rparr>) c1
         else c1)"

text \<open>
  \<^verbatim>\<open>processMouseDown\<close>. A throw of \<^verbatim>\<open>#processPrimaryButton\<close> leaves the handler before
  \<^verbatim>\<open>graph.change()\<close> and the \<^verbatim>\<open>onMouseDown\<close> callback.
\<close>

definition processMouseDown :: "litegraph \<Rightarrow> graph \<Rightarrow> pointer_event \<Rightarrow> canvas \<Rightarrow> outcome" where
  "processMouseDown lg g e c0 =
     (let c1 = (if isPrimary e then pointer_down e c0 else c0)
      in if \<not> has_graph c1 \<or> \<not> is_inside g then Inr c1
         else
           let nd = getNodeOnPos g (canvasX e) (canvasY e);
               c2 = set_pointer (\<lambda>p. p\<lparr>isDouble := (isDown p \<and> isPrimary e), isDown := True\<rparr>) c1
           in if onMouse g then Inr c2
              else
                let r =
                  (if button e = 0 \<and> \<not> isDouble (pointer c2)
                   then processPrimaryButton lg g e nd c2
                   else if button e = 1 then Inr (processMiddleButton lg g e nd c2)
                   else if (button e = 2 \<or> isDouble (pointer c2)) \<and> allow_interaction c2
                           \<and> \<not> read_only c2
                   then Inr (log_call (ProcessContextMenu nd e)
                               (case nd of
                                  None \<Rightarrow> c2
                                | Some n \<Rightarrow> processSelect (Some n) (Some e) True c2))
                   else Inr c2)
                in case r of
                     Inl err \<Rightarrow> Inl err
                   | Inr c3 \<Rightarrow> Inr (log_call (OnMouseDown e) (log_call GraphChange c3)))"



section \<open>Pointer up and cancel\<close>

text \<open>The width of an input's hit box on release grows with its label or name.\<close>

definition input_hit_width :: "input_slot \<Rightarrow> real" where
  "input_hit_width input =
     (let len = (case in_label_length input of
                   Some n \<Rightarrow> n
                 | None \<Rightarrow> (case in_name_length input of Some n \<Rightarrow> n | None \<Rightarrow> 0))
      in 20 + real (if len = 0 then 3 else len) * 7)"

text \<open>\<^verbatim>\<open>isOverNodeInput\<close>; \<open>None\<close> is the result \<open>-1\<close>.\<close>

definition isOverNodeInput :: "graph \<Rightarrow> item \<Rightarrow> real \<Rightarrow> real \<Rightarrow> nat option" where
  "isOverNodeInput g n canvasx canvasy =
     find (\<lambda>i. let link_pos = getConnectionPos g n True i
                in if horizontal g n
                   then isInRectangle canvasx canvasy (fst link_pos - 5) (snd link_pos - 10) 10 20
                   else isInRectangle canvasx canvasy (fst link_pos - 10) (snd link_pos - 10)
                          (input_hit_width (inputs n ! i)) 20)
       [0..<length (inputs n)]"

text \<open>\<^verbatim>\<open>isOverNodeOutput\<close>; \<open>None\<close> is the result \<open>-1\<close>.\<close>

definition isOverNodeOutput :: "graph \<Rightarrow> item \<Rightarrow> real \<Rightarrow> real \<Rightarrow> nat option" where
  "isOverNodeOutput g n canvasx canvasy =
     find (\<lambda>i. let link_pos = getConnectionPos g n False i
                in if horizontal g n
                   then isInRectangle canvasx canvasy (fst link_pos - 5) (snd link_pos - 10) 10 20
                   else isInRectangle canvasx canvasy (fst link_pos - 10) (snd link_pos - 10) 40 20)
       [0..<length (outputs n)]"

text \<open>
  The body of the loop of \<^verbatim>\<open>processMouseUp\<close> over the pending links, when a node is
  under the pointer.
\<close>

definition release_link ::
  "graph \<Rightarrow> real \<Rightarrow> real \<Rightarrow> item \<Rightarrow> connecting_link \<Rightarrow> canvas \<Rightarrow> canvas" where
  "release_link g x y n l c =
     (case cl_output l of
        Some out \<Rightarrow>
          (case isOverNodeInput g n x y of
             Some slot \<Rightarrow> log_call (Connect (cl_node l) (cl_slot l) n slot (afterRerouteId l)) c
           | None \<Rightarrow>
               (case link_over_widget c of
                  Some w \<Rightarrow>
                    (log_call (EmitEvent (ConnectingWidgetLink l n w)) c)
                      \<lparr>link_over_widget := None\<rparr>
                | None \<Rightarrow>
                    log_call (ConnectByType (cl_node l) (cl_slot l) n (out_type out)
                                (afterRerouteId l)) c))
      | None \<Rightarrow>
          (case cl_input l of
             Some inp \<Rightarrow>
               (case isOverNodeOutput g n x y of
                  Some slot \<Rightarrow>
                    log_call (Connect n slot (cl_node l) (cl_slot l) (afterRerouteId l)) c
                | None \<Rightarrow>
                    log_call (ConnectByTypeOutput (cl_node l) (cl_slot l) n (in_type inp)
                                (afterRerouteId l)) c)
           | None \<Rightarrow> c))"

text \<open>The release of pending links over the empty canvas.\<close>

definition release_on_empty ::
  "litegraph \<Rightarrow> pointer_event \<Rightarrow> connecting_link list \<Rightarrow> canvas \<Rightarrow> canvas" where
  "release_on_empty lg e ls c =
     (let firstLink = hd ls
      in if cl_input firstLink = None \<and> cl_output firstLink = None then c
         else
           let c1 = log_call (EmitEvent (EmptyRelease e ls)) c
           in if \<not> release_link_on_empty_shows_menu lg then c1
              else if shiftKey e
              then (if allow_searchbox c1 then log_call (ShowSearchBox e) c1 else c1)
              else log_call (ShowConnectionMenu firstLink e) c1)"

text \<open>
  The branch of \<^verbatim>\<open>processMouseUp\<close> for the left button, with \<open>nd\<close> the node under the
  pointer. With no pending link the source only calls \<^verbatim>\<open>onMouseUp\<close> of the hovered node,
  which is not modelled.
\<close>

definition release_primary ::
  "litegraph \<Rightarrow> graph \<Rightarrow> pointer_event \<Rightarrow> canvas \<Rightarrow> canvas" where
  "release_primary lg g e c0 =
     (let c = c0\<lparr>selected_group := None, isDragging := False\<rparr>;
          x = canvasX e; y = canvasY e;
          nd = getNodeOnPos g x y;
          c1 = (case connecting_links c of
                  None \<Rightarrow> c
                | Some [] \<Rightarrow> c
                | Some ls \<Rightarrow>
                    (case nd of
                       Some n \<Rightarrow> fold (release_link g x y n) ls c
                     | None \<Rightarrow> release_on_empty lg e ls c))
      in c1\<lparr>connecting_links := None\<rparr>)"

text \<open>\<^verbatim>\<open>processMouseUp\<close>.\<close>

definition processMouseUp :: "litegraph \<Rightarrow> graph \<Rightarrow> pointer_event \<Rightarrow> canvas \<Rightarrow> canvas" where
  "processMouseUp lg g e c0 =
     (if \<not> isPrimary e \<or> \<not> has_graph c0 then c0
      else
        case pointer_up lg g e c0 of (isClick, c) \<Rightarrow>
          if isClick
          then log_call GraphChange
                 ((set_pointer (\<lambda>p. p\<lparr>isDown := False, isDouble := False\<rparr>) c)
                    \<lparr>connecting_links := None, dragging_canvas := False\<rparr>)
          else
            let c1 = c\<lparr>block_click := False\<rparr>;
                c2 = (if button e = 0 then release_primary lg g e c1
                      else if button e = 1 then c1\<lparr>dragging_canvas := False\<rparr>
                      else c1)
            in log_call GraphChange
                 (set_pointer (\<lambda>p. p\<lparr>isDown := False, isDouble := False\<rparr>) c2))"


text \<open>The calls that create a link.\<close>

fun is_connect :: "call \<Rightarrow> bool" where
  "is_connect (Connect _ _ _ _ _) = True"
| "is_connect (ConnectByType _ _ _ _ _) = True"
| "is_connect (ConnectByTypeOutput _ _ _ _ _) = True"
| "is_connect _ = False"

abbreviation connects :: "canvas \<Rightarrow> call list" where
  "connects c \<equiv> filter is_connect (calls c)"

text \<open>The mode flags that a \<^verbatim>\<open>finally\<close> hook clears.\<close>

definition flags_off :: "canvas \<Rightarrow> bool" where
  "flags_off c =
     (\<not> isDragging c \<and> \<not> dragging_canvas c \<and> dragging_rectangle c = None
      \<and> resizingGroup c = None \<and> resizing_node c = None)"

text \<open>
  The amended release rule in the spec's words, as the calls it makes for the pending
  links in turn, over the node \<open>n\<close>, with \<open>w\<close> the widget that the link hovers over: a
  link dragged from an output is connected to the input slot under the pointer, else
  announced to the widget, which is then forgotten, else connected by type; a link
  dragged from an input is connected to the output slot under the pointer, else
  connected by type.
\<close>

fun release_calls_spec ::
  "graph \<Rightarrow> real \<Rightarrow> real \<Rightarrow> item \<Rightarrow> widget option \<Rightarrow> connecting_link list \<Rightarrow> call list" where
  "release_calls_spec g x y n w [] = []"
| "release_calls_spec g x y n w (l # ls) =
     (case cl_output l of
        Some out \<Rightarrow>
          (case isOverNodeInput g n x y of
             Some slot \<Rightarrow>
               Connect (cl_node l) (cl_slot l) n slot (afterRerouteId l)
                 # release_calls_spec g x y n w ls
           | None \<Rightarrow>
               (case w of
                  Some wd \<Rightarrow>
                    EmitEvent (ConnectingWidgetLink l n wd) # release_calls_spec g x y n None ls
                | None \<Rightarrow>
                    ConnectByType (cl_node l) (cl_slot l) n (out_type out) (afterRerouteId l)
                      # release_calls_spec g x y n None ls))
      | None \<Rightarrow>
          (case cl_input l of
             Some inp \<Rightarrow>
               (case isOverNodeOutput g n x y of
                  Some slot \<Rightarrow> Connect n slot (cl_node l) (cl_slot l) (afterRerouteId l)
                | None \<Rightarrow>
                    ConnectByTypeOutput (cl_node l) (cl_slot l) n (in_type inp)
                      (afterRerouteId l))
                 # release_calls_spec g x y n w ls
           | None \<Rightarrow> release_calls_spec g x y n w ls))"

text \<open>The calls of a release over the empty canvas, in the spec's words.\<close>

definition empty_release_calls_spec ::
  "litegraph \<Rightarrow> pointer_event \<Rightarrow> bool \<Rightarrow> connecting_link list \<Rightarrow> call list" where
  "empty_release_calls_spec lg e searchbox ls =
     (if cl_input (hd ls) = None \<and> cl_output (hd ls) = None then []
      else EmitEvent (EmptyRelease e ls)
             # (if \<not> release_link_on_empty_shows_menu lg then []
                else if shiftKey e then (if searchbox then [ShowSearchBox e] else [])
                else [ShowConnectionMenu (hd ls) e]))"

section \<open>Invariants of a gesture\<close>

text \<open>What the selection operations leave alone: the pointer session and the mode flags.\<close>

definition same_gesture :: "canvas \<Rightarrow> canvas \<Rightarrow> bool" where
  "same_gesture c c' =
     (pointer c' = pointer c \<and> isDragging c' = isDragging c
      \<and> dragging_canvas c' = dragging_canvas c
      \<and> dragging_rectangle c' = dragging_rectangle c
      \<and> resizingGroup c' = resizingGroup c \<and> resizing_node c' = resizing_node c
      \<and> connecting_links c' = connecting_links c)"





text \<open>The state in which the handlers of a press find the session after \<^verbatim>\<open>pointer.down\<close>.\<close>

definition fresh_press :: "canvas \<Rightarrow> bool" where
  "fresh_press c =
     (flags_off c \<and> \<not> dragStarted (pointer c) \<and> onDragStart (pointer c) = None
      \<and> onDrag (pointer c) = None \<and> finally_hook (pointer c) = None)"



section \<open>Concrete configurations\<close>

text \<open>The pointer session before any press.\<close>

definition new_pointer :: canvas_pointer where
  "new_pointer =
     \<lparr>isDown = False, isDouble = False, dragStarted = False, eDown = None, eUp = None,
      onClick = None, onDoubleClick = None, onDragStart = None, onDrag = None,
      onDragEnd = None, finally_hook = None\<rparr>"

text \<open>The canvas as the constructor leaves it, with a graph attached and nothing selected.\<close>

definition new_canvas :: canvas where
  "new_canvas =
     \<lparr>selected = (\<lambda>_. False), selectedItems = [], selected_nodes = Map.empty,
      highlighted_links = Map.empty, current_node = None, selected_group = None,
      isDragging = False, dragging_canvas = False, read_only = False,
      dragging_rectangle = None, resizingGroup = None, resizing_node = None,
      connecting_links = None, link_over_widget = None, node_widget = None,
      pointer = new_pointer, has_graph = True, allow_dragcanvas = True,
      allow_dragnodes = True, allow_interaction = True, allow_reconnect_links = True,
      allow_searchbox = True, multi_select = False, reroutesEnabled = False,
      connections_width = 3, ctx_lineWidth = 1, block_click = False, calls = []\<rparr>"

text \<open>A graph with no items, where every hit test misses.\<close>

definition empty_graph :: graph where
  "empty_graph =
     \<lparr>nodes = [], groups = [], reroutes = [],
      boundingRect = (\<lambda>_. (0, 0, 0, 0)), group_bounding = (\<lambda>_. (0, 0, 0, 0)),
      item_pos = (\<lambda>_. (0, 0)), item_size = (\<lambda>_. (0, 0)),
      getNodeOnPos = (\<lambda>_ _. None), getRerouteOnPos = (\<lambda>_ _. None),
      getGroupOnPos = (\<lambda>_ _. None), getGroupTitlebarOnPos = (\<lambda>_ _. None),
      links_get = (\<lambda>_. \<lparr>l_origin_id = 0, l_origin_slot = 0, l_target_id = 0,
                           l_target_slot = 0\<rparr>),
      nodes_by_id = (\<lambda>i. LGraphNode i [] []), reroute_first_link = (\<lambda>_. 0),
      createReroute = (\<lambda>_ _. Reroute 0),
      getConnectionPos = (\<lambda>_ _ _. (0, 0)), isPointInCollapse = (\<lambda>_ _ _. False),
      inResizeCorner = (\<lambda>_ _ _. False), isInResize = (\<lambda>_ _ _. False),
      getWidgetOnPos = (\<lambda>_ _ _. None), flags_pinned = (\<lambda>_. False),
      flags_collapsed = (\<lambda>_. False), flags_allow_interaction = (\<lambda>_. False),
      resizable = (\<lambda>_. True), horizontal = (\<lambda>_. False), font_size = (\<lambda>_. None),
      node_onMouseDown = (\<lambda>_. False), clone_node = (\<lambda>_. CreateNull), renderedPaths = [],
      isPointInStroke = (\<lambda>_ _ _ _. False), devicePixelRatio = None, onMouse = False,
      is_inside = True, hover_link_widget = None\<rparr>"

text \<open>A primary-button event at the origin with no modifier key.\<close>

definition plain_event :: pointer_event where
  "plain_event =
     \<lparr>canvasX = 0, canvasY = 0, button = 0, isPrimary = True, shiftKey = False,
      altKey = False, ctrlKey = False, metaKey = False, pastThreshold = False\<rparr>"

text \<open>Two nodes that share link 7: it leaves \<open>node_a\<close> and enters \<open>node_b\<close>.\<close>

definition node_a :: item where
  "node_a = LGraphNode 1 [] [\<lparr>links = Some [7], out_type = ''number''\<rparr>]"

definition node_b :: item where
  "node_b =
     LGraphNode 2
       [\<lparr>link = Some 7, in_type = ''number'', in_label_length = None,
         in_name_length = Some 1\<rparr>] []"

text \<open>
  A graph for the rubber band: \<open>node_a\<close> and \<open>node_b\<close> and group 3 lie inside the
  rectangle \<open>(0, 0, 100, 100)\<close>, node 4 lies outside, group 5 straddles its border.
\<close>

definition node_far :: item where
  "node_far = LGraphNode 4 [] []"

definition band_graph :: graph where
  "band_graph =
     empty_graph
       \<lparr>nodes := [node_a, node_b, node_far],
        groups := [LGraphGroup 3, LGraphGroup 5],
        boundingRect := (\<lambda>it. if it = node_far then (500, 500, 50, 50)
                               else if it = node_a then (10, 10, 20, 20)
                               else (40, 40, 20, 20)),
        group_bounding := (\<lambda>it. if it = LGraphGroup 5 then (90, 90, 50, 50)
                                 else (5, 5, 80, 80))\<rparr>"

text \<open>The renderer as the constructor leaves it, at scale 1, with an empty context.\<close>

definition new_render_state :: render_state where
  "new_render_state =
     \<lparr>links_render_mode = SPLINE_LINK, render_connections_border = True, ds_scale = 1,
      linkMarkerShape = Some Circle, highquality_render = True,
      render_connection_arrows = False, render_curved_connections = False,
      default_link_color = ''#9A9'', link_type_colors = (\<lambda>_. None), visible_links = [],
      ctx = \<lparr>lineWidth = 1, lineJoin = ''miter'', strokeStyle = ''#000'',
             fillStyle = ''#000'', drawn = []\<rparr>\<rparr>"

text \<open>A link that an earlier frame rendered: it holds a path and a centre point.\<close>

definition stored_link :: render_link where
  "stored_link =
     \<lparr>seg_id = 7, parentId = None, origin_id = 1, origin_slot = 0,
      path = Some [MoveTo 1 1, LineTo 2 2], centre_pos = Some (3, 3), centreAngle = None,
      link_type = ''number'', link_color = None\<rparr>"

definition no_options :: render_options where
  "no_options = \<lparr>startControl = None, endControl = None, reroute = None, num_sublines = 1\<rparr>"

text \<open>Settings of the library with every option off.\<close>

definition plain_settings :: litegraph where
  "plain_settings =
     \<lparr>alt_drag_do_clone_nodes = False, shift_click_do_break_link_from = False,
      ctrl_alt_click_do_break_link = False, click_do_break_link_to = False,
      middle_click_slot_add_default_node = False, release_link_on_empty_shows_menu = False,
      alwaysSnapToGrid = False, DEFAULT_GROUP_FONT_SIZE = 24\<rparr>"

text \<open>
  A graph for the pointer: \<open>node_a\<close> covers the points with \<open>x < 100\<close> and has its output
  at the origin, \<open>node_b\<close> covers \<open>100 \<le> x < 200\<close> and has its input at \<open>(100, 0)\<close>, and the
  canvas is empty from \<open>x = 200\<close> on.
\<close>

definition slot_graph :: graph where
  "slot_graph =
     empty_graph
       \<lparr>nodes := [node_a, node_b],
        getNodeOnPos := (\<lambda>x y. if x < 100 then Some node_a
                               else if x < 200 then Some node_b else None),
        getConnectionPos := (\<lambda>n is_input i. if n = node_a then (0, 0) else (100, 0))\<rparr>"

text \<open>A primary-button event at a point, and the same event past the drag threshold.\<close>

definition event_at :: "real \<Rightarrow> real \<Rightarrow> pointer_event" where
  "event_at x y = plain_event\<lparr>canvasX := x, canvasY := y\<rparr>"


text \<open>A widget, and pending links dragged from the output of \<open>node_a\<close> and from the input of \<open>node_b\<close>.\<close>

definition a_widget :: widget where
  "a_widget =
     \<lparr>w_name = ''value'', w_type = ''number'', w_onPointerDown = None, w_read_only = False,
      w_has_mouse = False\<rparr>"

definition link_from_output :: connecting_link where
  "link_from_output =
     \<lparr>cl_node = node_a, cl_slot = 0, cl_input = None,
      cl_output = Some \<lparr>links = Some [7], out_type = ''number''\<rparr>, cl_pos = (0, 0),
      afterRerouteId = None, cl_direction = None\<rparr>"

definition link_from_input :: connecting_link where
  "link_from_input =
     \<lparr>cl_node = node_b, cl_slot = 0,
      cl_input = Some \<lparr>link = Some 7, in_type = ''number'', in_label_length = None,
                       in_name_length = Some 1\<rparr>,
      cl_output = None, cl_pos = (100, 0), afterRerouteId = None, cl_direction = None\<rparr>"

text \<open>The canvas in the middle of a drag of the given pending links over a widget.\<close>

definition dragging_links :: "connecting_link list \<Rightarrow> canvas" where
  "dragging_links ls =
     new_canvas\<lparr>connecting_links := Some ls, link_over_widget := Some a_widget,
                pointer := new_pointer\<lparr>isDown := True, dragStarted := True\<rparr>\<rparr>"

text \<open>
  A graph with one rendered link from \<open>(0, 0)\<close> to \<open>(100, 0)\<close>, whose centre marker is at
  \<open>(50, 0)\<close>, and a canvas context that finds every point inside the stroke.
\<close>

definition rendered_segment :: link_segment where
  "rendered_segment =
     \<lparr>seg_id = 7, parentId = None, origin_id = 1, origin_slot = 0,
      path = Some [MoveTo 0 0, LineTo 100 0], centre_pos = Some (50, 0), centreAngle = None\<rparr>"

definition stroke_graph :: graph where
  "stroke_graph =
     empty_graph\<lparr>renderedPaths := [rendered_segment], isPointInStroke := (\<lambda>_ _ _ _. True)\<rparr>"

section \<open>Facts about the selection model\<close>

lemma set_set_add: "set (set_add xs x) = insert x (set xs)"
  by (auto simp: set_add_def)

lemma set_set_delete: "set (set_delete xs x) = set xs - {x}"
  by (auto simp: set_delete_def)

lemma highlight_apply: "highlight ks m k = (if k \<in> set ks then Some True else m k)"
  unfolding highlight_def by (induction ks arbitrary: m) auto

lemma unhighlight_apply: "unhighlight ks m k = (if k \<in> set ks then None else m k)"
  unfolding unhighlight_def by (induction ks arbitrary: m) auto

lemma selected_select: "selected (select it c) = (selected c)(it := True)"
  by (auto simp: select_def Let_def log_call_def fun_eq_iff)

lemma selectedItems_select: "set (selectedItems (select it c)) = insert it (set (selectedItems c))"
  by (auto simp: select_def Let_def log_call_def set_set_add)

lemma selected_deselect: "selected (deselect it c) = (selected c)(it := False)"
  by (auto simp: deselect_def Let_def log_call_def fun_eq_iff)

lemma selectedItems_deselect: "set (selectedItems (deselect it c)) = set (selectedItems c) - {it}"
  by (auto simp: deselect_def Let_def log_call_def set_set_delete)

lemma select_consistent: "item_consistent c it \<Longrightarrow> item_consistent (select x c) it"
  by (simp add: item_consistent_def selected_select selectedItems_select)

lemma deselect_consistent: "item_consistent c it \<Longrightarrow> item_consistent (deselect x c) it"
  by (simp add: item_consistent_def selected_deselect selectedItems_deselect)

lemma loop_selected:
  "selected (deselectAll_loop keep xs c) it =
     (if it \<in> set xs \<and> Some it \<noteq> keep then False else selected c it)"
  by (induction keep xs c rule: deselectAll_loop.induct) (auto simp: Let_def log_call_def)

lemma loop_selectedItems: "selectedItems (deselectAll_loop keep xs c) = selectedItems c"
  by (induction keep xs c rule: deselectAll_loop.induct) (auto simp: Let_def log_call_def)

lemma selected_deselectAll:
  "has_graph c \<Longrightarrow> selected (deselectAll keep c) it =
     (if it \<in> set (selectedItems c) \<and> Some it \<noteq> keep then False else selected c it)"
  by (auto simp: deselectAll_def Let_def log_call_def loop_selected
      split: option.splits)

lemma selectedItems_deselectAll:
  "has_graph c \<Longrightarrow> set (selectedItems (deselectAll keep c)) =
     {it. Some it = keep \<and> it \<in> set (selectedItems c)}"
  by (auto simp: deselectAll_def Let_def log_call_def loop_selectedItems
      split: option.splits)

lemma deselectAll_consistent:
  "item_consistent c it \<Longrightarrow> item_consistent (deselectAll keep c) it"
  apply (cases "has_graph c")
   apply (auto simp: item_consistent_def selected_deselectAll selectedItems_deselectAll)[1]
  apply (simp add: deselectAll_def)
  done

lemma fold_select_items:
  "set (selectedItems (fold select xs c)) = set (selectedItems c) \<union> set xs"
  by (induction xs arbitrary: c) (auto simp: selectedItems_select)

lemma fold_deselect_items:
  "set (selectedItems (fold deselect xs c)) = set (selectedItems c) - set xs"
  by (induction xs arbitrary: c) (auto simp: selectedItems_deselect)

lemma fold_deselect_others_items:
  "set (selectedItems (fold (\<lambda>it c'. if it \<notin> A then deselect it c' else c') xs c)) =
     set (selectedItems c) - (set xs - A)"
  by (induction xs arbitrary: c) (auto simp: selectedItems_deselect)

lemma fold_select_consistent:
  "item_consistent c it \<Longrightarrow> item_consistent (fold select xs c) it"
  by (induction xs arbitrary: c) (auto simp: select_consistent)

lemma fold_deselect_consistent:
  "item_consistent c it \<Longrightarrow> item_consistent (fold deselect xs c) it"
  by (induction xs arbitrary: c) (auto simp: deselect_consistent)

lemma fold_deselect_others_consistent:
  "item_consistent c it \<Longrightarrow>
   item_consistent (fold (\<lambda>x c'. if x \<notin> A then deselect x c' else c') xs c) it"
  by (induction xs arbitrary: c) (auto simp: deselect_consistent)

lemma classify_ok:
  "it \<in> G \<Longrightarrow> classes_ok G c0 S s \<Longrightarrow> classes_ok G c0 (insert it S) (classify it s)"
  by (cases s) (auto simp: classes_ok_def classify_def item_consistent_def)

lemma single_filter: "S \<union> {n. n = x \<and> P n} = (if P x then insert x S else S)"
  by auto

lemma filter_Cons_set:
  "S \<union> {n \<in> set (x # xs). P n} = (S \<union> {n. n = x \<and> P n}) \<union> {n \<in> set xs. P n}"
  by auto

lemma classify_node_step:
  "x \<in> G \<Longrightarrow> classes_ok G c0 S s \<Longrightarrow>
   classes_ok G c0 (S \<union> {n. n = x \<and> overlapBounding r (boundingRect g n)})
     (classify_node g r x s)"
  by (simp add: single_filter classify_node_def classify_ok)

lemma classify_node_ok:
  "set xs \<subseteq> G \<Longrightarrow> classes_ok G c0 S s \<Longrightarrow>
   classes_ok G c0 (S \<union> {n \<in> set xs. overlapBounding r (boundingRect g n)})
     (fold (classify_node g r) xs s)"
proof (induction xs arbitrary: S s)
  case Nil
  then show ?case by simp
next
  case (Cons x xs)
  from Cons.prems have x: "x \<in> G" and xs: "set xs \<subseteq> G" by auto
  show ?case
    unfolding filter_Cons_set
    using Cons.IH [OF xs classify_node_step [OF x Cons.prems(2)]] by simp
qed

lemma log_call_ok:
  "classes_ok G c0 S (c, isSel, notSel) \<Longrightarrow> classes_ok G c0 S (log_call k c, isSel, notSel)"
  by (simp add: classes_ok_def log_call_def item_consistent_def)

lemma classify_group_step:
  "x \<in> G \<Longrightarrow> classes_ok G c0 S s \<Longrightarrow>
   classes_ok G c0 (S \<union> {n. n = x \<and> containsRect r (group_bounding g n)})
     (classify_group g r x s)"
  by (cases s) (simp add: single_filter classify_group_def classify_ok log_call_ok)

lemma classify_group_ok:
  "set xs \<subseteq> G \<Longrightarrow> classes_ok G c0 S s \<Longrightarrow>
   classes_ok G c0 (S \<union> {n \<in> set xs. containsRect r (group_bounding g n)})
     (fold (classify_group g r) xs s)"
proof (induction xs arbitrary: S s)
  case Nil
  then show ?case by simp
next
  case (Cons x xs)
  from Cons.prems have x: "x \<in> G" and xs: "set xs \<subseteq> G" by auto
  show ?case
    unfolding filter_Cons_set
    using Cons.IH [OF xs classify_group_step [OF x Cons.prems(2)]] by simp
qed

lemma force_select_ok:
  assumes "classes_ok G c0 S (c, isSel, notSel)"
  shows "classes_ok G c0 (insert rr S)
           (classify rr (c\<lparr>selectedItems := set_add (selectedItems c) rr,
                           selected := (selected c)(rr := True)\<rparr>, isSel, notSel))"
  using assms
  by (auto simp: classes_ok_def classify_def item_consistent_def set_set_add)

lemma classify_reroute_step:
  "classes_ok G c0 S s \<Longrightarrow>
   classes_ok G c0 (S \<union> {n. n = x \<and> isPointInRect (item_pos g n) r})
     (classify_reroute g r x s)"
  by (cases s) (simp add: single_filter classify_reroute_def force_select_ok)

lemma classify_reroute_ok:
  "classes_ok G c0 S s \<Longrightarrow>
   classes_ok G c0 (S \<union> {n \<in> set xs. isPointInRect (item_pos g n) r})
     (fold (classify_reroute g r) xs s)"
proof (induction xs arbitrary: S s)
  case Nil
  then show ?case by simp
next
  case (Cons x xs)
  show ?case
    unfolding filter_Cons_set
    using Cons.IH [OF classify_reroute_step [OF Cons.prems]] by simp
qed

lemma classify_all_ok:
  assumes "\<forall>it \<in> G. item_consistent c it" and "set (nodes g) \<union> set (groups g) \<subseteq> G"
  shows "classes_ok G c (classified g r) (classify_all g r c)"
proof -
  have start: "classes_ok G c {} (c, [], [])"
    using assms(1) by (simp add: classes_ok_def)
  have n: "set (nodes g) \<subseteq> G" and gr: "set (groups g) \<subseteq> G"
    using assms(2) by auto
  from classify_reroute_ok [OF classify_group_ok [OF gr classify_node_ok [OF n start]]]
  show ?thesis
    by (simp add: classify_all_def classified_def)
qed

lemma fst_classify: "fst (classify x s) = fst s"
  by (cases s) (simp add: classify_def)

lemma classify_node_consistent:
  "item_consistent (fst s) it \<Longrightarrow> item_consistent (fst (classify_node g r x s)) it"
  by (simp add: classify_node_def fst_classify)

lemma classify_group_consistent:
  "item_consistent (fst s) it \<Longrightarrow> item_consistent (fst (classify_group g r x s)) it"
  by (cases s) (simp add: classify_group_def fst_classify item_consistent_def log_call_def)

lemma classify_reroute_consistent:
  "item_consistent (fst s) it \<Longrightarrow> item_consistent (fst (classify_reroute g r x s)) it"
  by (cases s) (auto simp: classify_reroute_def fst_classify item_consistent_def set_set_add)

lemma fold_classify_node_consistent:
  "item_consistent (fst s) it \<Longrightarrow> item_consistent (fst (fold (classify_node g r) xs s)) it"
  by (induction xs arbitrary: s) (auto simp: classify_node_consistent)

lemma fold_classify_group_consistent:
  "item_consistent (fst s) it \<Longrightarrow> item_consistent (fst (fold (classify_group g r) xs s)) it"
  by (induction xs arbitrary: s) (auto simp: classify_group_consistent)

lemma fold_classify_reroute_consistent:
  "item_consistent (fst s) it \<Longrightarrow> item_consistent (fst (fold (classify_reroute g r) xs s)) it"
  by (induction xs arbitrary: s) (auto simp: classify_reroute_consistent)

lemma classify_all_consistent:
  "item_consistent c it \<Longrightarrow> item_consistent (fst (classify_all g r c)) it"
  unfolding classify_all_def
  by (intro fold_classify_reroute_consistent fold_classify_group_consistent
      fold_classify_node_consistent) simp

lemma handleMultiSelect_consistent:
  assumes "item_consistent c it"
  shows "item_consistent (handleMultiSelect g e r c) it"
proof -
  let ?c = "c\<lparr>dragging_rectangle := map_option (\<lambda>_. normalise_rect r) (dragging_rectangle c)\<rparr>"
  have c: "item_consistent ?c it"
    using assms by (simp add: item_consistent_def)
  obtain c1 isSel notSel where s: "classify_all g (normalise_rect r) ?c = (c1, isSel, notSel)"
    by (cases "classify_all g (normalise_rect r) ?c") auto
  have "item_consistent c1 it"
    using classify_all_consistent [OF c, of g "normalise_rect r"] s by simp
  then show ?thesis
    by (simp add: handleMultiSelect_def Let_def s fold_select_consistent
        fold_deselect_consistent fold_deselect_others_consistent)
qed

lemma handleMultiSelect_items:
  assumes "\<forall>it \<in> set (positionableItems g). item_consistent c it"
  shows "set (selectedItems (handleMultiSelect g e r c)) =
     (if shiftKey e then set (selectedItems c) \<union> classified g (normalise_rect r)
      else if altKey e then set (selectedItems c) - classified g (normalise_rect r)
      else classified g (normalise_rect r))"
proof -
  let ?c = "c\<lparr>dragging_rectangle := map_option (\<lambda>_. normalise_rect r) (dragging_rectangle c)\<rparr>"
  let ?G = "set (positionableItems g)"
  have c: "\<forall>it \<in> ?G. item_consistent ?c it"
    using assms by (simp add: item_consistent_def)
  have sub: "set (nodes g) \<union> set (groups g) \<subseteq> ?G"
    by (auto simp: positionableItems_def)
  obtain c1 isSel notSel where s: "classify_all g (normalise_rect r) ?c = (c1, isSel, notSel)"
    by (cases "classify_all g (normalise_rect r) ?c") auto
  have ok: "classes_ok ?G ?c (classified g (normalise_rect r)) (c1, isSel, notSel)"
    using classify_all_ok [OF c sub, of "normalise_rect r"] s by simp
  have items: "selectedItems ?c = selectedItems c" by simp
  from ok show ?thesis
    unfolding classes_ok_def items
    by (auto simp: handleMultiSelect_def Let_def s fold_select_items
        fold_deselect_items fold_deselect_others_items)
qed

section \<open>Facts about the pointer handlers\<close>

lemma release_link_calls:
  "calls (release_link g x y n l c) = calls c @ release_calls_spec g x y n (link_over_widget c) [l]"
  by (simp add: release_link_def log_call_def split: option.splits)

lemma release_link_widget:
  "link_over_widget (release_link g x y n l c) =
     (if cl_output l \<noteq> None \<and> isOverNodeInput g n x y = None then None else link_over_widget c)"
  by (simp add: release_link_def log_call_def split: option.splits)

lemma release_calls_spec_Cons:
  "release_calls_spec g x y n w (l # ls) =
     release_calls_spec g x y n w [l]
       @ release_calls_spec g x y n
           (if cl_output l \<noteq> None \<and> isOverNodeInput g n x y = None then None else w) ls"
  by (simp split: option.splits)

lemma fold_release_link_calls:
  "calls (fold (release_link g x y n) ls c) =
     calls c @ release_calls_spec g x y n (link_over_widget c) ls"
proof (induction ls arbitrary: c)
  case Nil
  then show ?case by simp
next
  case (Cons l ls)
  show ?case
    by (subst release_calls_spec_Cons)
       (simp add: Cons.IH release_link_calls release_link_widget del: release_calls_spec.simps)
qed

lemma release_on_empty_calls:
  "calls (release_on_empty lg e ls c) = calls c @ empty_release_calls_spec lg e (allow_searchbox c) ls"
  by (simp add: release_on_empty_def empty_release_calls_spec_def log_call_def Let_def)


lemma connects_log: "\<not> is_connect k \<Longrightarrow> connects (log_call k c) = connects c"
  by (simp add: log_call_def)

lemma connects_set_pointer: "connects (set_pointer f c) = connects c"
  by (simp add: set_pointer_def)

lemma connects_select: "connects (select i c) = connects c"
  by (simp add: select_def Let_def log_call_def)

lemma connects_deselect: "connects (deselect i c) = connects c"
  by (simp add: deselect_def Let_def log_call_def)

lemma connects_deselectAll_loop: "connects (deselectAll_loop keep xs c) = connects c"
  by (induction keep xs c rule: deselectAll_loop.induct)
     (simp_all add: Let_def log_call_def)

lemma connects_deselectAll: "connects (deselectAll keep c) = connects c"
  by (simp add: deselectAll_def Let_def log_call_def connects_deselectAll_loop
      split: option.splits)

lemma connects_processSelect: "connects (processSelect it e sticky c) = connects c"
  by (simp add: processSelect_def Let_def connects_log connects_select connects_deselect
      connects_deselectAll split: option.splits)

lemma connects_fold:
  "(\<And>x c. connects (f x c) = connects c) \<Longrightarrow> connects (fold f xs c) = connects c"
  by (induction xs arbitrary: c) simp_all

lemma connects_classify_node: "connects (fst (classify_node g r x s)) = connects (fst s)"
  by (simp add: classify_node_def fst_classify)

lemma connects_classify_group: "connects (fst (classify_group g r x s)) = connects (fst s)"
  by (cases s) (simp add: classify_group_def fst_classify connects_log)

lemma connects_classify_reroute: "connects (fst (classify_reroute g r x s)) = connects (fst s)"
  by (cases s) (simp add: classify_reroute_def fst_classify)

lemma connects_fold_fst:
  "(\<And>x s. connects (fst (f x s)) = connects (fst s)) \<Longrightarrow>
   connects (fst (fold f xs s)) = connects (fst s)"
  by (induction xs arbitrary: s) simp_all

lemma connects_classify_all: "connects (fst (classify_all g r c)) = connects c"
  by (simp add: classify_all_def connects_fold_fst connects_classify_node
      connects_classify_group connects_classify_reroute)

lemma connects_handleMultiSelect: "connects (handleMultiSelect g e r c) = connects c"
proof -
  let ?c = "c\<lparr>dragging_rectangle := map_option (\<lambda>_. normalise_rect r) (dragging_rectangle c)\<rparr>"
  obtain c1 isSel notSel where s: "classify_all g (normalise_rect r) ?c = (c1, isSel, notSel)"
    by (cases "classify_all g (normalise_rect r) ?c") auto
  have c1: "connects c1 = connects c"
    using connects_classify_all [of g "normalise_rect r" ?c] s by simp
  have d: "connects (fold (\<lambda>it c'. if it \<notin> set isSel then deselect it c' else c') xs c') =
      connects c'" for xs c'
    by (rule connects_fold) (simp add: connects_deselect)
  show ?thesis
    by (simp add: handleMultiSelect_def Let_def s c1 d connects_fold connects_select
        connects_deselect)
qed

lemma connects_startDraggingItems: "connects (startDraggingItems it sticky c) = connects c"
  by (simp add: startDraggingItems_def Let_def connects_processSelect connects_set_pointer
      connects_log)

lemma connects_processDraggedItems: "connects (processDraggedItems lg e c) = connects c"
  by (simp add: processDraggedItems_def Let_def connects_log)

lemma connects_run_final: "connects (state_of (run_final f c)) = connects c"
  by (cases f) (simp_all add: state_of_def log_call_def split: option.splits)

lemma connects_update_first_link: "connects (update_first_link f c) = connects c"
  by (simp add: update_first_link_def)

lemma connects_run_hook: "connects (run_hook lg g h e c) = connects c"
  by (cases h)
     (simp_all add: Let_def connects_processSelect connects_log connects_startDraggingItems
       connects_processDraggedItems connects_handleMultiSelect connects_update_first_link)

lemma connects_run_hook_opt: "connects (run_hook_opt lg g h e c) = connects c"
  by (simp add: run_hook_opt_def connects_run_hook split: option.splits)

lemma connects_pointer_reset: "connects (state_of (pointer_reset c)) = connects c"
proof (cases "finally_hook (pointer c)")
  case None
  then show ?thesis
    by (simp add: pointer_reset_def state_of_def clear_session_def)
next
  case (Some f)
  from connects_run_final [of f "set_pointer (\<lambda>p. p\<lparr>finally_hook := None\<rparr>) c"] Some
  show ?thesis
    by (simp add: pointer_reset_def state_of_def clear_session_def set_pointer_def
        split: sum.splits prod.splits)
qed

lemma connects_pointer_up: "connects (snd (pointer_up lg g e c)) = connects c"
  by (simp add: pointer_up_def Let_def connects_pointer_reset connects_run_hook_opt
      connects_set_pointer)

lemma same_gesture_refl: "same_gesture c c"
  by (simp add: same_gesture_def)

lemma same_gesture_trans: "same_gesture a b \<Longrightarrow> same_gesture b c \<Longrightarrow> same_gesture a c"
  by (simp add: same_gesture_def)

lemma same_gesture_log: "same_gesture c (log_call k c)"
  by (simp add: same_gesture_def log_call_def)

lemma same_gesture_select: "same_gesture c (select i c)"
  by (simp add: same_gesture_def select_def Let_def log_call_def)

lemma same_gesture_deselect: "same_gesture c (deselect i c)"
  by (simp add: same_gesture_def deselect_def Let_def log_call_def)

lemma same_gesture_deselectAll_loop: "same_gesture c (deselectAll_loop keep xs c)"
  by (induction keep xs c rule: deselectAll_loop.induct)
     (auto simp: Let_def log_call_def same_gesture_def)

lemma same_gesture_deselectAll: "same_gesture c (deselectAll keep c)"
  by (simp add: deselectAll_def Let_def log_call_def
      same_gesture_deselectAll_loop [unfolded same_gesture_def] same_gesture_def
      split: option.splits)

lemma same_gesture_processSelect: "same_gesture c (processSelect it e sticky c)"
proof -
  have 1: "same_gesture c (log_call OnSelectionChange (deselectAll k c))" for k
    by (rule same_gesture_trans [OF same_gesture_deselectAll same_gesture_log])
  have 2: "same_gesture c (log_call OnSelectionChange (deselect i c))" for i
    by (rule same_gesture_trans [OF same_gesture_deselect same_gesture_log])
  have 3: "same_gesture c (log_call OnSelectionChange (select i c))" for i
    by (rule same_gesture_trans [OF same_gesture_select same_gesture_log])
  have 4: "same_gesture c (log_call OnSelectionChange (select i (deselectAll k c)))" for i k
    by (rule same_gesture_trans [OF same_gesture_deselectAll
          same_gesture_trans [OF same_gesture_select same_gesture_log]])
  show ?thesis
    by (simp add: processSelect_def Let_def 1 2 3 4 same_gesture_log same_gesture_refl
        split: option.splits)
qed

lemma startDraggingItems_gesture:
  "pointer (startDraggingItems it sticky c) = (pointer c)\<lparr>finally_hook := Some FinallyItems\<rparr>
   \<and> isDragging (startDraggingItems it sticky c)
   \<and> dragging_canvas (startDraggingItems it sticky c) = dragging_canvas c
   \<and> dragging_rectangle (startDraggingItems it sticky c) = dragging_rectangle c
   \<and> resizingGroup (startDraggingItems it sticky c) = resizingGroup c
   \<and> resizing_node (startDraggingItems it sticky c) = resizing_node c
   \<and> connecting_links (startDraggingItems it sticky c) = connecting_links c"
proof -
  let ?c2 = "set_pointer (\<lambda>p. p\<lparr>finally_hook := Some FinallyItems\<rparr>)
      (log_call GraphBeforeChange (log_call EmitBeforeChange c))"
  have "same_gesture ?c2 (processSelect (Some it) (eDown (pointer ?c2)) sticky ?c2)"
    by (rule same_gesture_processSelect)
  then show ?thesis
    by (simp add: startDraggingItems_def Let_def same_gesture_def set_pointer_def log_call_def)
qed
















lemma press_links_plain:
  "\<not> shiftKey e \<Longrightarrow> \<not> altKey e \<Longrightarrow>
   press_links g e segs c =
     map_option
       (\<lambda>seg. set_pointer
                 (\<lambda>p. p\<lparr>onClick := Some (ClickShowLinkMenu seg e),
                        onDragStart := Some DragStartCanvas,
                        finally_hook := Some FinallyCanvas\<rparr>) c)
       (find (on_link_centre (canvasX e) (canvasY e)) segs)"
  by (induction segs) (auto simp: Let_def on_link_centre_def split: option.splits)

subsection \<open>The invariant of a gesture\<close>



















lemma fresh_press_down:
  "flags_off c \<Longrightarrow>
   fresh_press (set_pointer (\<lambda>p. p\<lparr>isDouble := d, isDown := True\<rparr>) (pointer_down e c))"
  by (simp add: fresh_press_def flags_off_def pointer_down_def set_pointer_def)











lemma state_of_pointer_reset:
  "state_of (pointer_reset c) =
     (case finally_hook (pointer c) of
        None \<Rightarrow> clear_session c
      | Some f \<Rightarrow>
          (case run_final f (set_pointer (\<lambda>p. p\<lparr>finally_hook := None\<rparr>) c) of
             Inl err \<Rightarrow> snd err
           | Inr c1 \<Rightarrow> clear_session c1))"
  by (simp add: pointer_reset_def state_of_def split: option.splits sum.splits prod.splits)




lemma pointer_reset_threw:
  "threw (pointer_reset c) =
     (case finally_hook (pointer c) of
        Some (FinallyWidget n w) \<Rightarrow> w_has_mouse w \<and> eUp (pointer c) = None
      | _ \<Rightarrow> False)"
  by (auto simp: pointer_reset_def threw_def set_pointer_def
      split: option.splits final_hook.splits)

lemma pointer_up_returns:
  "eUp (pointer c) \<noteq> None \<Longrightarrow> \<not> threw (pointer_reset c)"
  by (auto simp: pointer_reset_threw split: option.splits final_hook.splits)

text \<open>
  A flag that was set without its hook is not cleared by the reset. This is the state in
  which the space key leaves the canvas during a gesture: \<^verbatim>\<open>processKey\<close>, which is not
  modelled, sets \<^verbatim>\<open>dragging_canvas\<close> to \<^verbatim>\<open>pointer.isDown\<close> and installs no hook.
\<close>

lemma pointer_reset_keeps_unhooked_pan:
  assumes "dragging_canvas c" and "finally_hook (pointer c) \<noteq> Some FinallyCanvas"
  shows "dragging_canvas (state_of (pointer_reset c))"
proof (cases "finally_hook (pointer c)")
  case None
  with assms(1) show ?thesis
    by (simp add: state_of_pointer_reset clear_session_def)
next
  case (Some f)
  with assms show ?thesis
    by (cases f)
       (simp_all add: state_of_pointer_reset clear_session_def set_pointer_def log_call_def
          split: option.splits)
qed

text \<open>
  No hook writes the release event of the session, so the reset at the end of
  \<^verbatim>\<open>pointer_up\<close> finds it and returns.
\<close>

lemma eUp_log: "eUp (pointer (log_call k c)) = eUp (pointer c)"
  by (simp add: log_call_def)

lemma eUp_same: "same_gesture c c' \<Longrightarrow> eUp (pointer c') = eUp (pointer c)"
  by (simp add: same_gesture_def)

lemma eUp_fold:
  "(\<And>x c. eUp (pointer (f x c)) = eUp (pointer c)) \<Longrightarrow>
   eUp (pointer (fold f xs c)) = eUp (pointer c)"
  by (induction xs arbitrary: c) simp_all

lemma eUp_fold_fst:
  "(\<And>x s. eUp (pointer (fst (f x s))) = eUp (pointer (fst s))) \<Longrightarrow>
   eUp (pointer (fst (fold f xs s))) = eUp (pointer (fst s))"
  by (induction xs arbitrary: s) simp_all

lemma eUp_classify_all: "eUp (pointer (fst (classify_all g r c))) = eUp (pointer c)"
  by (simp add: classify_all_def eUp_fold_fst classify_node_def classify_group_def
      classify_reroute_def fst_classify eUp_log eUp_same [OF same_gesture_select]
      split: prod.splits)

lemma eUp_handleMultiSelect: "eUp (pointer (handleMultiSelect g e r c)) = eUp (pointer c)"
proof -
  let ?c = "c\<lparr>dragging_rectangle := map_option (\<lambda>_. normalise_rect r) (dragging_rectangle c)\<rparr>"
  obtain c1 isSel notSel where s: "classify_all g (normalise_rect r) ?c = (c1, isSel, notSel)"
    by (cases "classify_all g (normalise_rect r) ?c") auto
  have c1: "eUp (pointer c1) = eUp (pointer c)"
    using eUp_classify_all [of g "normalise_rect r" ?c] s by simp
  have d: "eUp (pointer (fold (\<lambda>it c'. if it \<notin> set isSel then deselect it c' else c') xs c')) =
      eUp (pointer c')" for xs c'
    by (rule eUp_fold) (simp add: eUp_same [OF same_gesture_deselect])
  show ?thesis
    by (simp add: handleMultiSelect_def Let_def s c1 d eUp_fold eUp_same [OF same_gesture_select]
        eUp_same [OF same_gesture_deselect])
qed

lemma eUp_run_hook: "eUp (pointer (run_hook lg g h e c)) = eUp (pointer c)"
  by (cases h)
     (simp_all add: Let_def eUp_log eUp_same [OF same_gesture_processSelect]
        eUp_handleMultiSelect startDraggingItems_gesture processDraggedItems_def
        update_first_link_def)

lemma eUp_run_hook_opt: "eUp (pointer (run_hook_opt lg g h e c)) = eUp (pointer c)"
  by (simp add: run_hook_opt_def eUp_run_hook split: option.splits)

lemma pointer_up_reset_returns:
  "\<not> threw
      (pointer_reset
         (let c = set_pointer (\<lambda>p. p\<lparr>eUp := Some e\<rparr>) c0
          in if dragStarted (pointer c) then run_hook_opt lg g (onDragEnd (pointer c)) e c
             else if isDouble (pointer c) then run_hook_opt lg g (onDoubleClick (pointer c)) e c
             else run_hook_opt lg g (onClick (pointer c)) e c))"
  by (rule pointer_up_returns) (simp add: Let_def eUp_run_hook_opt set_pointer_def)

section \<open>Claims about the selection model\<close>

lemma highlighted_deselect:
  "isNode a \<Longrightarrow> selected c a \<or> a \<in> set (selectedItems c) \<Longrightarrow>
   highlighted_links (deselect a c) k =
     (if k \<in> set (node_link_keys a) then None else highlighted_links c k)"
  by (auto simp: deselect_def Let_def log_call_def unhighlight_apply)

lemma highlighted_select:
  "isNode a \<Longrightarrow> \<not> selected c a \<or> a \<notin> set (selectedItems c) \<Longrightarrow>
   highlighted_links (select a c) k =
     (if k \<in> set (node_link_keys a) then Some True else highlighted_links c k)"
  by (auto simp: select_def Let_def log_call_def highlight_apply)

lemma highlighted_select_keeps:
  "highlighted_links c k = Some True \<Longrightarrow> highlighted_links (select b c) k = Some True"
  by (auto simp: select_def Let_def log_call_def highlight_apply)

text \<open>
  C7. Deselecting a node deletes exactly the keys of that node's links from
  \<^verbatim>\<open>highlighted_links\<close>, whoever else uses them: when two nodes that share a link are
  selected and the first is deselected, the shared link loses its highlight although
  the second node is still selected.
\<close>

theorem deselect_drops_shared_highlight:
  assumes "isNode a" and "a \<noteq> b" and "\<not> selected c a"
    and "k \<in> set (node_link_keys a)" and "k \<in> set (node_link_keys b)"
  shows "highlighted_links (select b (select a c)) k = Some True
     \<and> highlighted_links (deselect a (select b (select a c))) =
         (\<lambda>j. if j \<in> set (node_link_keys a) then None
              else highlighted_links (select b (select a c)) j)
     \<and> highlighted_links (deselect a (select b (select a c))) k = None
     \<and> selected (deselect a (select b (select a c))) b
     \<and> b \<in> set (selectedItems (deselect a (select b (select a c))))"
proof -
  let ?c2 = "select b (select a c)"
  have "highlighted_links (select a c) k = Some True"
    using assms by (simp add: highlighted_select)
  then have hl: "highlighted_links ?c2 k = Some True"
    by (rule highlighted_select_keeps)
  have sel_a: "selected ?c2 a"
    by (simp add: selected_select)
  have drop: "highlighted_links (deselect a ?c2) j =
      (if j \<in> set (node_link_keys a) then None else highlighted_links ?c2 j)" for j
    using assms(1) sel_a by (simp add: highlighted_deselect)
  have still: "selected (deselect a ?c2) b \<and> b \<in> set (selectedItems (deselect a ?c2))"
    using assms(2) by (auto simp: selected_deselect selectedItems_deselect selected_select
        selectedItems_select)
  from hl drop still assms(4) show ?thesis
    by (simp add: fun_eq_iff)
qed

theorem deselect_drops_shared_highlight_witness:
  "isNode node_a \<and> node_a \<noteq> node_b \<and> \<not> selected new_canvas node_a
   \<and> Some 7 \<in> set (node_link_keys node_a) \<and> Some 7 \<in> set (node_link_keys node_b)
   \<and> highlighted_links (select node_b (select node_a new_canvas)) (Some 7) = Some True
   \<and> highlighted_links (deselect node_a (select node_b (select node_a new_canvas))) (Some 7)
       = None
   \<and> selected (deselect node_a (select node_b (select node_a new_canvas))) node_b"
proof -
  have h: "isNode node_a" "node_a \<noteq> node_b" "\<not> selected new_canvas node_a"
    "Some 7 \<in> set (node_link_keys node_a)" "Some 7 \<in> set (node_link_keys node_b)"
    by (simp_all add: node_a_def node_b_def new_canvas_def node_link_keys_def
        output_link_keys_def)
  from deselect_drops_shared_highlight [OF h] h show ?thesis
    by simp
qed

lemma set_delete_set_add: "x \<notin> set xs \<Longrightarrow> set_delete (set_add xs x) x = xs"
  by (induction xs) (auto simp: set_delete_def set_add_def)

text \<open>
  C8. \<^verbatim>\<open>select\<close> on an item that is selected and in the set, and \<^verbatim>\<open>deselect\<close> on an
  item that is neither, change nothing; \<^verbatim>\<open>select\<close> followed by \<^verbatim>\<open>deselect\<close> leaves the
  item unselected and out of the set, and for an item that was neither selected nor in
  the set it restores the flags and the set as they were.
\<close>

theorem select_deselect_idempotent_round_trip:
  "(selected c it \<and> it \<in> set (selectedItems c) \<longrightarrow> select it c = c)
   \<and> (\<not> selected c it \<and> it \<notin> set (selectedItems c) \<longrightarrow>
        deselect it c = c
        \<and> selected (deselect it (select it c)) = selected c
        \<and> selectedItems (deselect it (select it c)) = selectedItems c)
   \<and> \<not> selected (deselect it (select it c)) it
   \<and> it \<notin> set (selectedItems (deselect it (select it c)))"
proof -
  have restore: "selected (deselect it (select it c)) = selected c
      \<and> selectedItems (deselect it (select it c)) = selectedItems c"
    if "\<not> selected c it" and "it \<notin> set (selectedItems c)"
    using that
    by (auto simp: select_def deselect_def Let_def log_call_def set_set_add
        set_delete_set_add fun_eq_iff)
  have idem_select: "select it c = c" if "selected c it \<and> it \<in> set (selectedItems c)"
    using that by (simp add: select_def)
  have idem_deselect: "deselect it c = c"
    if "\<not> selected c it" and "it \<notin> set (selectedItems c)"
    using that by (simp add: deselect_def)
  have off: "\<not> selected (deselect it (select it c)) it"
    by (simp add: selected_deselect)
  have out: "it \<notin> set (selectedItems (deselect it (select it c)))"
    by (simp add: selectedItems_deselect)
  from restore idem_select idem_deselect off out show ?thesis
    by blast
qed

theorem select_deselect_idempotent_round_trip_witness:
  "selected (select node_a new_canvas) node_a
   \<and> node_a \<in> set (selectedItems (select node_a new_canvas))
   \<and> select node_a (select node_a new_canvas) = select node_a new_canvas
   \<and> \<not> selected new_canvas node_b \<and> node_b \<notin> set (selectedItems new_canvas)
   \<and> deselect node_b new_canvas = new_canvas
   \<and> selectedItems (deselect node_b (select node_b new_canvas)) = []
   \<and> \<not> selected (deselect node_b (select node_b new_canvas)) node_b"
proof -
  have a: "selected (select node_a new_canvas) node_a
      \<and> node_a \<in> set (selectedItems (select node_a new_canvas))"
    by (simp add: selected_select selectedItems_select)
  have b: "\<not> selected new_canvas node_b \<and> node_b \<notin> set (selectedItems new_canvas)"
    "selectedItems new_canvas = []"
    by (simp_all add: new_canvas_def)
  from select_deselect_idempotent_round_trip [of "select node_a new_canvas" node_a]
    select_deselect_idempotent_round_trip [of new_canvas node_b] a b
  show ?thesis
    by simp
qed

text \<open>
  C9. For every item, \<^verbatim>\<open>select\<close>, \<^verbatim>\<open>deselect\<close>, \<^verbatim>\<open>deselectAll\<close> (with or without a kept
  item) and the classification of a multi-select rectangle keep the \<^verbatim>\<open>selected\<close> flag
  of the item equal to its membership in \<^verbatim>\<open>selectedItems\<close>.
\<close>

theorem selection_operations_keep_invariant:
  assumes "item_consistent c it"
  shows "item_consistent (select x c) it
     \<and> item_consistent (deselect x c) it
     \<and> item_consistent (deselectAll None c) it
     \<and> item_consistent (deselectAll (Some x) c) it
     \<and> item_consistent (handleMultiSelect g e r c) it"
  using assms
  by (simp add: select_consistent deselect_consistent deselectAll_consistent
      handleMultiSelect_consistent)

theorem selection_operations_keep_invariant_witness:
  "item_consistent (select node_a new_canvas) node_a
   \<and> item_consistent (select node_b (select node_a new_canvas)) node_a
   \<and> item_consistent (deselect node_a (select node_a new_canvas)) node_a
   \<and> item_consistent (deselectAll None (select node_a new_canvas)) node_a
   \<and> item_consistent (deselectAll (Some node_a) (select node_a new_canvas)) node_a
   \<and> item_consistent
       (handleMultiSelect band_graph plain_event (0, 0, 100, 100)
          (select node_a new_canvas)) node_a"
proof -
  have h: "item_consistent (select node_a new_canvas) node_a"
    by (simp add: item_consistent_def selected_select selectedItems_select)
  from selection_operations_keep_invariant [OF h, of node_b band_graph plain_event "(0, 0, 100, 100)"]
    selection_operations_keep_invariant [OF h, of node_a band_graph plain_event "(0, 0, 100, 100)"]
    h
  show ?thesis
    by simp
qed

section \<open>Claims about the multi-select rectangle\<close>

text \<open>
  C5 as stated fails: a group whose bounds intersect the rectangle without lying inside
  it is not classified. Group 5 of \<open>band_graph\<close> overlaps the rectangle and stays
  unselected after a release with no modifier key.
\<close>

theorem multi_select_skips_straddling_group:
  "overlapBounding (normalise_rect (0, 0, 100, 100)) (group_bounding band_graph (LGraphGroup 5))
   \<and> LGraphGroup 5 \<notin>
       set (selectedItems (handleMultiSelect band_graph plain_event (0, 0, 100, 100) new_canvas))
   \<and> \<not> selected (handleMultiSelect band_graph plain_event (0, 0, 100, 100) new_canvas)
         (LGraphGroup 5)"
  by (simp add: handleMultiSelect_def classify_all_def classify_node_def classify_group_def
      classify_def normalise_rect_def overlapBounding_def containsRect_def band_graph_def
      empty_graph_def new_canvas_def plain_event_def node_a_def node_b_def node_far_def
      log_call_def Let_def select_def set_add_def highlight_def node_link_keys_def
      output_link_keys_def)

text \<open>
  C5, amended. On release of the rectangle the classified items are the nodes whose
  bounds overlap it, the groups whose bounds lie inside it and the reroutes whose
  position is inside it. With shift the selection is united with them, with alt (and no
  shift) they are removed from it, and with neither the selection becomes exactly the
  classified items; the flags of the items of the graph agree with the set afterwards.
\<close>

theorem multi_select_release:
  assumes "list_all (item_consistent c) (positionableItems g)"
  shows "(shiftKey e \<longrightarrow>
            set (selectedItems (handleMultiSelect g e r c)) =
              set (selectedItems c) \<union> classified g (normalise_rect r))
     \<and> (\<not> shiftKey e \<and> altKey e \<longrightarrow>
            set (selectedItems (handleMultiSelect g e r c)) =
              set (selectedItems c) - classified g (normalise_rect r))
     \<and> (\<not> shiftKey e \<and> \<not> altKey e \<longrightarrow>
            set (selectedItems (handleMultiSelect g e r c)) = classified g (normalise_rect r))
     \<and> list_all (item_consistent (handleMultiSelect g e r c)) (positionableItems g)"
proof -
  have h: "\<forall>it \<in> set (positionableItems g). item_consistent c it"
    using assms by (simp add: list_all_iff)
  show ?thesis
    using h handleMultiSelect_items [OF h, of e r]
    by (simp add: handleMultiSelect_consistent list_all_iff)
qed

theorem multi_select_release_witness:
  "list_all (item_consistent (select node_far new_canvas)) (positionableItems band_graph)
   \<and> set (selectedItems
            (handleMultiSelect band_graph plain_event (0, 0, 100, 100)
               (select node_far new_canvas))) = {node_a, node_b, LGraphGroup 3}"
proof -
  have h: "list_all (item_consistent (select node_far new_canvas)) (positionableItems band_graph)"
    by (simp add: list_all_iff item_consistent_def selected_select selectedItems_select
        new_canvas_def)
  have r: "classified band_graph (normalise_rect (0, 0, 100, 100)) =
      {node_a, node_b, LGraphGroup 3}"
    by (auto simp: classified_def normalise_rect_def band_graph_def empty_graph_def
        overlapBounding_def containsRect_def node_a_def node_b_def node_far_def)
  from multi_select_release [OF h, of plain_event "(0, 0, 100, 100)"] h r
  show ?thesis
    by (simp add: plain_event_def)
qed

section \<open>Claims about link rendering\<close>

lemma distance_example: "distance (0, 0) (100, 0) = 100"
proof -
  have "sqrt ((100::real) * 100) = 100" by (rule real_sqrt_unique) simp_all
  then show ?thesis by (simp add: distance_def)
qed

lemma addSplineOffset_spec: "addSplineOffset p d dst 0.25 = control_point_spec p d dst"
  by (cases d; cases p) (simp_all add: addSplineOffset_def control_point_spec_def)

lemma findPointOnCurve_half: "findPointOnCurve a b ca cb 0.5 = bezier_half_spec a ca cb b"
  by (simp add: findPointOnCurve_def bezier_half_spec_def Let_def field_simps)

lemma spline_sublines:
  assumes "links_render_mode rs = SPLINE_LINK" and "startControl opts = None"
    and "endControl opts = None"
  shows "xs \<noteq> [] \<Longrightarrow>
    \<exists>s'. render_sublines (render_subline rs atan2 a b sd ed (Some d) opts marks n) xs s = Some s'
      \<and> sl_pos s' = findPointOnCurve a b (addSplineOffset a sd d 0.25) (addSplineOffset b ed d 0.25) 0.5"
proof (induction xs arbitrary: s)
  case Nil
  then show ?case by simp
next
  case (Cons x xs)
  show ?case
  proof (cases "xs = []")
    case True
    then show ?thesis using assms by (simp add: render_subline_def Let_def)
  next
    case False
    obtain s1 where s1: "render_subline rs atan2 a b sd ed (Some d) opts marks n x s = Some s1"
      using assms by (simp add: render_subline_def Let_def)
    from Cons.IH [OF False, of s1] s1 show ?thesis by simp
  qed
qed

lemma subline_indices: "0 \<le> num_sublines opts \<Longrightarrow> map int [0..<nat (subline_count opts)] \<noteq> []"
  by (auto simp: subline_count_def)

lemma render_loop_spline:
  assumes "links_render_mode rs = SPLINE_LINK" and "startControl opts = None"
    and "endControl opts = None" and "0 \<le> num_sublines opts"
  shows "\<exists>s'. render_loop rs atan2 a b sd ed (Some d) opts marks (subline_count opts) s = Some s'
      \<and> sl_pos s' = findPointOnCurve a b (addSplineOffset a sd d 0.25) (addSplineOffset b ed d 0.25) 0.5"
  unfolding render_loop_def
  by (rule spline_sublines [OF assms(1-3) subline_indices [OF assms(4)]])

lemma render_loop_other:
  assumes "links_render_mode rs = OtherMode m" and "0 \<le> num_sublines opts"
  shows "render_loop rs atan2 a b sd ed dst opts marks (subline_count opts) s = None"
proof -
  obtain i xs where xs: "map int [0..<nat (subline_count opts)] = i # xs"
    using subline_indices [OF assms(2)] by (cases "map int [0..<nat (subline_count opts)]") auto
  show ?thesis
    unfolding render_loop_def xs using assms(1) by (simp add: render_subline_def)
qed

lemma renderLink_coloured:
  assumes "linkColour c (push_visible lnk rs) lnk color = Inr colour"
  shows "renderLink c rs atan2 now a b lnk skip_border flow color start_dir end_dir opts =
    (case render_loop (push_visible lnk rs) atan2 a b (dir_or start_dir RIGHT)
            (dir_or end_dir LEFT)
            (if links_render_mode (push_visible lnk rs) = SPLINE_LINK
                \<and> (endControl opts = None \<or> startControl opts = None)
             then Some (distance a b) else None)
            opts
            ((reroute opts \<noteq> None \<or> lnk \<noteq> None)
               \<and> linkMarkerShape (push_visible lnk rs) = Some Arrow)
            (subline_count opts) (first_subline opts lnk) of
       None \<Rightarrow>
         store_out ((push_visible lnk rs)\<lparr>ctx := prepare_ctx c (push_visible lnk rs) opts\<rparr>)
           lnk opts (first_subline opts lnk)
     | Some s \<Rightarrow>
         store_out
           ((push_visible lnk rs)
              \<lparr>ctx := finish_ctx c (push_visible lnk rs) atan2 now a b (dir_or start_dir RIGHT)
                        (dir_or end_dir LEFT) skip_border flow colour
                        (reroute opts \<noteq> None \<or> lnk \<noteq> None) s
                        (prepare_ctx c (push_visible lnk rs) opts)\<rparr>) lnk opts s)"
  by (simp only: renderLink_def Let_def assms sum.case)

lemma renderLink_threw:
  assumes "linkColour c (push_visible lnk rs) lnk color = Inl err"
  shows "renderLink c rs atan2 now a b lnk skip_border flow color start_dir end_dir opts =
    \<lparr>ro_state = push_visible lnk rs, ro_link = lnk, ro_reroute = reroute opts, ro_pos = (0, 0),
     ro_error = Some err\<rparr>"
  by (simp only: renderLink_def Let_def assms sum.case)

lemma push_visible_fields:
  "links_render_mode (push_visible lnk rs) = links_render_mode rs"
  "ctx (push_visible lnk rs) = ctx rs"
  by (simp_all add: push_visible_def split: option.splits)

lemma store_out_pos: "ro_pos (store_out rs lnk opts s) = sl_pos s"
  by (simp add: store_out_def)

lemma store_out_cached_pos:
  "cached_pos opts (store_out rs lnk opts s) = map_option (\<lambda>_. sl_pos s) (segment_pos opts lnk)"
  by (cases lnk; cases "reroute opts")
     (auto simp: store_out_def cached_pos_def segment_pos_def store_segment_def
       split: option.splits)

lemma store_out_cached_path:
  "lnk \<noteq> None \<or> reroute opts \<noteq> None \<Longrightarrow>
   cached_path opts (store_out rs lnk opts s) = Some (sl_path s)"
  by (cases lnk; cases "reroute opts")
     (auto simp: store_out_def cached_path_def store_segment_def)


lemma renderLink_error_free:
  "ro_error (renderLink c rs atan2 now a b lnk skip_border flow color start_dir end_dir opts) = None
   \<Longrightarrow> \<exists>colour. linkColour c (push_visible lnk rs) lnk color = Inr colour"
  by (cases "linkColour c (push_visible lnk rs) lnk color") (simp_all add: renderLink_threw)

lemma render_loop_single:
  assumes "links_render_mode rs = SPLINE_LINK" and "startControl opts = None"
    and "endControl opts = None" and "num_sublines opts = 0 \<or> num_sublines opts = 1"
  shows "\<exists>s'. render_loop rs atan2 a b sd ed (Some d) opts marks (subline_count opts) s = Some s'
      \<and> sl_path s' = sl_path s @
           [MoveTo (fst a) (snd a),
            BezierCurveTo (fst (addSplineOffset a sd d 0.25)) (snd (addSplineOffset a sd d 0.25))
              (fst (addSplineOffset b ed d 0.25)) (snd (addSplineOffset b ed d 0.25))
              (fst b) (snd b)]"
proof -
  have one: "subline_count opts = 1"
    using assms(4) by (auto simp: subline_count_def)
  show ?thesis
    unfolding one render_loop_def using assms(1-3)
    by (simp add: render_subline_def Let_def)
qed

lemma first_subline_path: "sl_path (first_subline opts lnk) = []"
  by (simp add: first_subline_def)

lemma renderLink_no_error:
  "linkColour c (push_visible lnk rs) lnk color = Inr colour \<Longrightarrow>
   ro_error (renderLink c rs atan2 now a b lnk skip_border flow color start_dir end_dir opts)
     = None"
  by (simp add: renderLink_coloured store_out_def split: option.splits)

lemma spline_centre_example: "spline_centre_spec (0, 0) (100, 0) RIGHT LEFT = (50, 0)"
  by (simp add: spline_centre_spec_def bezier_half_spec_def control_point_spec_def
      dir_or_def distance_example)

text \<open>
  C3. In spline mode with no explicit control points, each control point of the curve is
  its anchor moved along its direction hint by a quarter of the distance of the anchors,
  and the centre point, which is written to the segment's \<^verbatim>\<open>_pos\<close> when it has one, is the
  cubic bezier at parameter one half as a weighted sum. For the anchors \<open>(0, 0)\<close> and
  \<open>(100, 0)\<close> with hints RIGHT and LEFT its first coordinate is 50.
\<close>

theorem spline_centre_is_bezier_half:
  assumes "links_render_mode rs = SPLINE_LINK" and "startControl opts = None"
    and "endControl opts = None" and "0 \<le> num_sublines opts"
    and "ro_error (renderLink c rs atan2 now a b lnk skip_border flow color start_dir
            end_dir opts) = None"
  shows "ro_pos (renderLink c rs atan2 now a b lnk skip_border flow color start_dir end_dir
            opts) = spline_centre_spec a b start_dir end_dir
     \<and> cached_pos opts
          (renderLink c rs atan2 now a b lnk skip_border flow color start_dir end_dir opts)
         = map_option (\<lambda>_. spline_centre_spec a b start_dir end_dir) (segment_pos opts lnk)
     \<and> (num_sublines opts \<le> 1 \<and> (lnk \<noteq> None \<or> reroute opts \<noteq> None) \<longrightarrow>
          cached_path opts
            (renderLink c rs atan2 now a b lnk skip_border flow color start_dir end_dir opts)
           = Some (spline_path_spec a b start_dir end_dir))
     \<and> (a = (0, 0) \<and> b = (100, 0) \<and> start_dir = RIGHT \<and> end_dir = LEFT \<longrightarrow>
          fst (ro_pos (renderLink c rs atan2 now a b lnk skip_border flow color start_dir
                 end_dir opts)) = 50)"
proof -
  let ?rs = "push_visible lnk rs"
  let ?sd = "dir_or start_dir RIGHT" and ?ed = "dir_or end_dir LEFT"
  let ?marks = "(reroute opts \<noteq> None \<or> lnk \<noteq> None) \<and> linkMarkerShape ?rs = Some Arrow"
  have mode: "links_render_mode ?rs = SPLINE_LINK"
    using assms(1) by (simp add: push_visible_fields)
  obtain colour where col: "linkColour c ?rs lnk color = Inr colour"
    using renderLink_error_free [OF assms(5)] by blast
  have dst: "(if links_render_mode ?rs = SPLINE_LINK
                \<and> (endControl opts = None \<or> startControl opts = None)
              then Some (distance a b) else None) = Some (distance a b)"
    using mode assms(2) by simp
  obtain s where loop: "render_loop ?rs atan2 a b ?sd ?ed (Some (distance a b)) opts ?marks
        (subline_count opts) (first_subline opts lnk) = Some s"
    and pos: "sl_pos s = findPointOnCurve a b (addSplineOffset a ?sd (distance a b) 0.25)
        (addSplineOffset b ?ed (distance a b) 0.25) 0.5"
    using render_loop_spline [OF mode assms(2,3,4)] by blast
  have centre: "sl_pos s = spline_centre_spec a b start_dir end_dir"
    by (simp only: pos addSplineOffset_spec findPointOnCurve_half spline_centre_spec_def)
  have out: "renderLink c rs atan2 now a b lnk skip_border flow color start_dir end_dir opts =
      store_out
        (?rs\<lparr>ctx := finish_ctx c ?rs atan2 now a b ?sd ?ed skip_border flow colour
                    (reroute opts \<noteq> None \<or> lnk \<noteq> None) s (prepare_ctx c ?rs opts)\<rparr>)
        lnk opts s"
    by (simp only: renderLink_coloured [OF col] dst loop option.case)
  have p: "ro_pos (renderLink c rs atan2 now a b lnk skip_border flow color start_dir
      end_dir opts) = spline_centre_spec a b start_dir end_dir"
    by (simp only: out store_out_pos centre)
  have cp: "cached_pos opts
      (renderLink c rs atan2 now a b lnk skip_border flow color start_dir end_dir opts)
      = map_option (\<lambda>_. spline_centre_spec a b start_dir end_dir) (segment_pos opts lnk)"
    by (simp only: out store_out_cached_pos centre)
  have pth: "cached_path opts
      (renderLink c rs atan2 now a b lnk skip_border flow color start_dir end_dir opts)
      = Some (spline_path_spec a b start_dir end_dir)"
    if one: "num_sublines opts \<le> 1" and seg: "lnk \<noteq> None \<or> reroute opts \<noteq> None"
  proof -
    have "num_sublines opts = 0 \<or> num_sublines opts = 1"
      using one assms(4) by linarith
    from render_loop_single [OF mode assms(2,3) this, of atan2 a b ?sd ?ed "distance a b"
        ?marks "first_subline opts lnk"] loop
    have "sl_path s = spline_path_spec a b start_dir end_dir"
      by (simp only: first_subline_path addSplineOffset_spec spline_path_spec_def Let_def
          append_Nil option.inject simp_thms)
    then show ?thesis
      by (simp only: out store_out_cached_path [OF seg])
  qed
  have ex: "fst (ro_pos (renderLink c rs atan2 now a b lnk skip_border flow color start_dir
      end_dir opts)) = 50"
    if "a = (0, 0) \<and> b = (100, 0) \<and> start_dir = RIGHT \<and> end_dir = LEFT"
    using that p by (simp add: spline_centre_example)
  from p cp pth ex show ?thesis
    by blast
qed

theorem spline_centre_is_bezier_half_witness:
  "links_render_mode new_render_state = SPLINE_LINK
   \<and> startControl no_options = None \<and> endControl no_options = None
   \<and> 0 \<le> num_sublines no_options
   \<and> ro_error (renderLink new_canvas new_render_state (\<lambda>y x. 0) 0 (0, 0) (100, 0)
        (Some stored_link) False 0 None RIGHT LEFT no_options) = None
   \<and> ro_pos (renderLink new_canvas new_render_state (\<lambda>y x. 0) 0 (0, 0) (100, 0)
        (Some stored_link) False 0 None RIGHT LEFT no_options) = (50, 0)
   \<and> cached_pos no_options (renderLink new_canvas new_render_state (\<lambda>y x. 0) 0 (0, 0) (100, 0)
        (Some stored_link) False 0 None RIGHT LEFT no_options) = Some (50, 0)
   \<and> cached_path no_options (renderLink new_canvas new_render_state (\<lambda>y x. 0) 0 (0, 0)
        (100, 0) (Some stored_link) False 0 None RIGHT LEFT no_options)
       = Some [MoveTo 0 0, BezierCurveTo 25 0 75 0 100 0]"
proof -
  have h: "links_render_mode new_render_state = SPLINE_LINK"
    "startControl no_options = None" "endControl no_options = None"
    "0 \<le> num_sublines no_options"
    by (simp_all add: new_render_state_def no_options_def)
  have col: "linkColour new_canvas (push_visible (Some stored_link) new_render_state)
      (Some stored_link) None = Inr ''#9A9''"
    by (simp add: linkColour_def new_canvas_def stored_link_def truthy_def push_visible_def
        new_render_state_def)
  have ok: "ro_error (renderLink new_canvas new_render_state (\<lambda>y x. 0) 0 (0, 0) (100, 0)
        (Some stored_link) False 0 None RIGHT LEFT no_options) = None"
    by (rule renderLink_no_error [OF col])
  have seg: "segment_pos no_options (Some stored_link) = Some (3, 3)"
    "num_sublines no_options \<le> 1" "reroute no_options = None"
    by (simp_all add: segment_pos_def no_options_def stored_link_def)
  have pth: "spline_path_spec (0, 0) (100, 0) RIGHT LEFT =
      [MoveTo 0 0, BezierCurveTo 25 0 75 0 100 0]"
    by (simp add: spline_path_spec_def control_point_spec_def dir_or_def distance_example)
  from spline_centre_is_bezier_half [OF h ok] h ok seg pth show ?thesis
    by (simp add: spline_centre_example)
qed

text \<open>
  C4 as stated fails: the path object of the segment is replaced before the mode is
  looked at. A link that holds a path from an earlier frame holds an empty one after a
  call in an unknown mode.
\<close>

theorem unknown_mode_replaces_cached_path:
  "path stored_link = Some [MoveTo 1 1, LineTo 2 2]
   \<and> cached_path no_options
       (renderLink new_canvas (new_render_state\<lparr>links_render_mode := OtherMode 7\<rparr>)
          (\<lambda>y x. 0) 0 (0, 0) (100, 0) (Some stored_link) False 0 None RIGHT LEFT no_options)
      = Some []"
proof -
  let ?rs = "new_render_state\<lparr>links_render_mode := OtherMode 7\<rparr>"
  have col: "linkColour new_canvas (push_visible (Some stored_link) ?rs)
      (Some stored_link) None = Inr ''#9A9''"
    by (simp add: linkColour_def new_canvas_def stored_link_def truthy_def push_visible_def
        new_render_state_def)
  have mode: "links_render_mode (push_visible (Some stored_link) ?rs) = OtherMode 7"
    by (simp add: push_visible_fields)
  have n: "0 \<le> num_sublines no_options"
    by (simp add: no_options_def)
  have seg: "Some stored_link \<noteq> None \<or> reroute no_options \<noteq> None"
    by simp
  show ?thesis
    by (simp add: renderLink_coloured [OF col] render_loop_other [OF mode n]
        store_out_cached_path [OF seg] first_subline_path)
       (simp add: stored_link_def)
qed

text \<open>
  C4, amended. In an unknown mode, with a number of sublines that is not negative,
  \<^verbatim>\<open>renderLink\<close> issues no stroke and no fill and leaves the centre point \<^verbatim>\<open>_pos\<close> and the
  centre angle of the link and of the reroute as they were; the \<^verbatim>\<open>path\<close> of the rendered
  segment, however, is a new empty path when the call returns.
\<close>

theorem unknown_mode_draws_nothing:
  assumes "links_render_mode rs = OtherMode m" and "0 \<le> num_sublines opts"
  shows "drawn (ctx (ro_state (renderLink c rs atan2 now a b lnk skip_border flow color
                  start_dir end_dir opts))) = drawn (ctx rs)
     \<and> map_option centre_pos (ro_link (renderLink c rs atan2 now a b lnk skip_border flow color
                  start_dir end_dir opts)) = map_option centre_pos lnk
     \<and> map_option centreAngle (ro_link (renderLink c rs atan2 now a b lnk skip_border flow
                  color start_dir end_dir opts)) = map_option centreAngle lnk
     \<and> map_option centre_pos (ro_reroute (renderLink c rs atan2 now a b lnk skip_border flow
                  color start_dir end_dir opts)) = map_option centre_pos (reroute opts)
     \<and> map_option centreAngle (ro_reroute (renderLink c rs atan2 now a b lnk skip_border flow
                  color start_dir end_dir opts)) = map_option centreAngle (reroute opts)
     \<and> (ro_error (renderLink c rs atan2 now a b lnk skip_border flow color start_dir end_dir
                  opts) = None \<and> (lnk \<noteq> None \<or> reroute opts \<noteq> None) \<longrightarrow>
          cached_path opts (renderLink c rs atan2 now a b lnk skip_border flow color start_dir
                  end_dir opts) = Some [])"
proof (cases "linkColour c (push_visible lnk rs) lnk color")
  case (Inl err)
  then show ?thesis
    by (simp add: renderLink_threw push_visible_fields)
next
  case (Inr colour)
  have mode: "links_render_mode (push_visible lnk rs) = OtherMode m"
    using assms(1) by (simp add: push_visible_fields)
  have out: "renderLink c rs atan2 now a b lnk skip_border flow color start_dir end_dir opts =
      store_out ((push_visible lnk rs)\<lparr>ctx := prepare_ctx c (push_visible lnk rs) opts\<rparr>)
        lnk opts (first_subline opts lnk)"
    by (simp add: renderLink_coloured [OF Inr] render_loop_other [OF mode assms(2)])
  have drawn: "drawn (prepare_ctx c (push_visible lnk rs) opts) = drawn (ctx rs)"
    by (simp add: prepare_ctx_def Let_def push_visible_fields)
  have fields: "map_option centre_pos (ro_link (store_out r lnk opts (first_subline opts lnk)))
        = map_option centre_pos lnk
      \<and> map_option centreAngle (ro_link (store_out r lnk opts (first_subline opts lnk)))
        = map_option centreAngle lnk
      \<and> map_option centre_pos (ro_reroute (store_out r lnk opts (first_subline opts lnk)))
        = map_option centre_pos (reroute opts)
      \<and> map_option centreAngle (ro_reroute (store_out r lnk opts (first_subline opts lnk)))
        = map_option centreAngle (reroute opts)" for r
    by (cases lnk; cases "reroute opts")
       (auto simp: store_out_def store_segment_def first_subline_def segment_pos_def
         segment_angle_def split: option.splits)
  have pth: "cached_path opts (store_out r lnk opts (first_subline opts lnk)) = Some []"
    if "lnk \<noteq> None \<or> reroute opts \<noteq> None" for r
    using store_out_cached_path [OF that] by (simp add: first_subline_path)
  show ?thesis
    unfolding out using drawn fields pth
    by (simp add: store_out_def)
qed

theorem unknown_mode_draws_nothing_witness:
  "links_render_mode (new_render_state\<lparr>links_render_mode := OtherMode 7\<rparr>) = OtherMode 7
   \<and> 0 \<le> num_sublines no_options
   \<and> drawn (ctx (ro_state
        (renderLink new_canvas (new_render_state\<lparr>links_render_mode := OtherMode 7\<rparr>)
           (\<lambda>y x. 0) 0 (0, 0) (100, 0) (Some stored_link) False 0 None RIGHT LEFT
           no_options))) = []
   \<and> map_option centre_pos (ro_link
        (renderLink new_canvas (new_render_state\<lparr>links_render_mode := OtherMode 7\<rparr>)
           (\<lambda>y x. 0) 0 (0, 0) (100, 0) (Some stored_link) False 0 None RIGHT LEFT
           no_options)) = Some (Some (3, 3))"
proof -
  have h: "links_render_mode (new_render_state\<lparr>links_render_mode := OtherMode 7\<rparr>) = OtherMode 7"
    "0 \<le> num_sublines no_options"
    by (simp_all add: no_options_def)
  from unknown_mode_draws_nothing [OF h, of new_canvas "\<lambda>y x. 0" 0 "(0, 0)" "(100, 0)"
      "Some stored_link" False 0 None RIGHT LEFT] h
  show ?thesis
    by (simp add: new_render_state_def stored_link_def)
qed

section \<open>Claims about the pointer handlers\<close>




text \<open>
  C10. When the pointer session classifies the release of the primary pointer as a
  click, \<^verbatim>\<open>processMouseUp\<close> leaves no pending link and no canvas drag, and besides what
  the session itself dispatched it only calls \<^verbatim>\<open>graph.change\<close>: no call that creates a
  link is made, whatever link was pending.
\<close>

theorem click_release_commits_nothing:
  assumes "isPrimary e" and "has_graph c" and "fst (pointer_up lg g e c)"
  shows "connecting_links (processMouseUp lg g e c) = None
         \<and> \<not> dragging_canvas (processMouseUp lg g e c)
         \<and> calls (processMouseUp lg g e c) = calls (snd (pointer_up lg g e c)) @ [GraphChange]
         \<and> connects (processMouseUp lg g e c) = connects c"
proof -
  obtain b c1 where up: "pointer_up lg g e c = (b, c1)"
    by (cases "pointer_up lg g e c")
  with assms(3) have b: "b" by simp
  have c1: "connects c1 = connects c"
    using connects_pointer_up [of lg g e c] up by simp
  have eq: "processMouseUp lg g e c =
      log_call GraphChange
        ((set_pointer (\<lambda>p. p\<lparr>isDown := False, isDouble := False\<rparr>) c1)
           \<lparr>connecting_links := None, dragging_canvas := False\<rparr>)"
    using assms(1,2) up b by (simp add: processMouseUp_def)
  show ?thesis
    unfolding eq using c1 up by (simp add: log_call_def set_pointer_def)
qed

text \<open>
  A press on the output slot of \<open>node_a\<close> installs a pending link; the release at the same
  point is a click, after which the link is gone and nothing was connected.
\<close>

theorem click_release_commits_nothing_witness:
  "isPrimary plain_event
   \<and> has_graph (state_of (processMouseDown plain_settings slot_graph plain_event new_canvas))
   \<and> fst (pointer_up plain_settings slot_graph plain_event
            (state_of (processMouseDown plain_settings slot_graph plain_event new_canvas)))
   \<and> connecting_links (state_of (processMouseDown plain_settings slot_graph plain_event new_canvas))
       = Some [link_from_output]
   \<and> connecting_links
       (processMouseUp plain_settings slot_graph plain_event
          (state_of (processMouseDown plain_settings slot_graph plain_event new_canvas))) = None
   \<and> connects
       (processMouseUp plain_settings slot_graph plain_event
          (state_of (processMouseDown plain_settings slot_graph plain_event new_canvas))) = []"
proof -
  let ?down = "state_of (processMouseDown plain_settings slot_graph plain_event new_canvas)"
  let ?up = "processMouseUp plain_settings slot_graph plain_event ?down"
  have h: "isPrimary plain_event" "has_graph ?down"
    "fst (pointer_up plain_settings slot_graph plain_event ?down)"
    by code_simp+
  have k: "connecting_links ?down = Some [link_from_output]" "connects ?down = []"
    by code_simp+
  from click_release_commits_nothing [OF h]
  have r: "connecting_links ?up = None" "connects ?up = connects ?down"
    by blast+
  from r h k show ?thesis
    by (simp only: simp_thms)
qed

text \<open>
  C2. A link dragged from an input is connected by type although the pointer is over a
  widget that accepts links, and a pending link with neither end set is dropped over the
  empty canvas without an event.
\<close>

theorem release_over_widget_connects_input_link:
  "link_over_widget (dragging_links [link_from_input]) = Some a_widget
   \<and> calls (processMouseUp plain_settings slot_graph (event_at 50 50)
              (dragging_links [link_from_input]))
       = [ConnectByTypeOutput node_b 0 node_a ''number'' None, GraphChange]
   \<and> getNodeOnPos slot_graph 250 0 = None
   \<and> calls (processMouseUp plain_settings slot_graph (event_at 250 0)
              (dragging_links [link_from_input\<lparr>cl_input := None\<rparr>]))
       = [GraphChange]"
  by code_simp

text \<open>
  C2, amended. After a drag, the release of the left button with pending links makes
  these calls and no others, and then forgets the links. Over a node each link in turn:
  dragged from an output, it is connected to the input slot under the pointer, else
  announced to the widget that the link hovers over, which is then forgotten, else
  connected by type; dragged from an input, it is connected to the output slot under the
  pointer, else connected by type. Over the empty canvas the release is announced if
  the first link has an end.
\<close>

theorem drag_release_settles_pending_links:
  assumes "isPrimary e" and "has_graph c" and "button e = 0"
    and "\<not> fst (pointer_up lg g e c)"
    and "connecting_links (snd (pointer_up lg g e c)) = Some ls" and "ls \<noteq> []"
  shows "calls (processMouseUp lg g e c) =
           calls (snd (pointer_up lg g e c))
           @ (case getNodeOnPos g (canvasX e) (canvasY e) of
                Some n \<Rightarrow>
                  release_calls_spec g (canvasX e) (canvasY e) n
                    (link_over_widget (snd (pointer_up lg g e c))) ls
              | None \<Rightarrow>
                  empty_release_calls_spec lg e (allow_searchbox (snd (pointer_up lg g e c))) ls)
           @ [GraphChange]
         \<and> connecting_links (processMouseUp lg g e c) = None"
proof -
  obtain b c1 where up: "pointer_up lg g e c = (b, c1)"
    by (cases "pointer_up lg g e c")
  with assms(4) have b: "\<not> b" by simp
  from assms(5) up have ls: "connecting_links c1 = Some ls" by simp
  obtain l rest where l: "ls = l # rest"
    using assms(6) by (cases ls) auto
  define c2 where "c2 = c1\<lparr>block_click := False, selected_group := None, isDragging := False\<rparr>"
  have c2: "calls c2 = calls c1" "link_over_widget c2 = link_over_widget c1"
    "allow_searchbox c2 = allow_searchbox c1" "connecting_links c2 = Some (l # rest)"
    using ls l by (simp_all add: c2_def)
  have eq: "processMouseUp lg g e c =
      log_call GraphChange
        (set_pointer (\<lambda>p. p\<lparr>isDown := False, isDouble := False\<rparr>)
           ((case getNodeOnPos g (canvasX e) (canvasY e) of
               Some n \<Rightarrow> fold (release_link g (canvasX e) (canvasY e) n) ls c2
             | None \<Rightarrow> release_on_empty lg e ls c2)\<lparr>connecting_links := None\<rparr>))"
    using assms(1-3) up b ls l
    by (simp add: processMouseUp_def release_primary_def c2_def Let_def split: option.splits)
  show ?thesis
    unfolding eq using up c2(1-3)
    by (simp add: log_call_def set_pointer_def fold_release_link_calls release_on_empty_calls
        split: option.splits)
qed

theorem drag_release_settles_pending_links_witness:
  "isPrimary (event_at 150 50) \<and> has_graph (dragging_links [link_from_output])
   \<and> button (event_at 150 50) = 0
   \<and> \<not> fst (pointer_up plain_settings slot_graph (event_at 150 50)
              (dragging_links [link_from_output]))
   \<and> connecting_links
       (snd (pointer_up plain_settings slot_graph (event_at 150 50)
               (dragging_links [link_from_output]))) = Some [link_from_output]
   \<and> calls (processMouseUp plain_settings slot_graph (event_at 150 50)
              (dragging_links [link_from_output]))
       = [EmitEvent (ConnectingWidgetLink link_from_output node_b a_widget), GraphChange]
   \<and> connecting_links
       (processMouseUp plain_settings slot_graph (event_at 150 50)
          (dragging_links [link_from_output])) = None"
proof -
  have h: "isPrimary (event_at 150 50)" "has_graph (dragging_links [link_from_output])"
    "button (event_at 150 50) = 0"
    "\<not> fst (pointer_up plain_settings slot_graph (event_at 150 50)
              (dragging_links [link_from_output]))"
    "connecting_links
       (snd (pointer_up plain_settings slot_graph (event_at 150 50)
               (dragging_links [link_from_output]))) = Some [link_from_output]"
    "[link_from_output] \<noteq> []"
    by code_simp+
  have k: "calls (snd (pointer_up plain_settings slot_graph (event_at 150 50)
               (dragging_links [link_from_output]))) = []"
    "link_over_widget (snd (pointer_up plain_settings slot_graph (event_at 150 50)
               (dragging_links [link_from_output]))) = Some a_widget"
    "getNodeOnPos slot_graph (canvasX (event_at 150 50)) (canvasY (event_at 150 50))
       = Some node_b"
    "release_calls_spec slot_graph (canvasX (event_at 150 50)) (canvasY (event_at 150 50))
       node_b (Some a_widget) [link_from_output]
       = [EmitEvent (ConnectingWidgetLink link_from_output node_b a_widget)]"
    by code_simp+
  from drag_release_settles_pending_links [OF h] h k show ?thesis
    by simp
qed

text \<open>
  C6. A press without modifier keys at \<open>(10, 0)\<close>, which the canvas context finds inside
  the stroke of the rendered link but which is off its centre marker, does not install
  the link menu: it selects nothing on click and pans the canvas.
\<close>

theorem plain_press_in_stroke_pans_canvas:
  "isPointInStroke stroke_graph (connections_width new_canvas + 7)
     [MoveTo 0 0, LineTo 100 0] 10 0
   \<and> onClick
       (pointer (state_of (processMouseDown plain_settings stroke_graph (event_at 10 0) new_canvas)))
       = Some (ClickSelect None (event_at 10 0))
   \<and> dragging_canvas
       (state_of (processMouseDown plain_settings stroke_graph (event_at 10 0) new_canvas))"
  by code_simp

text \<open>
  C6, amended. A press of the primary button with no modifier key that hits no node and
  no reroute, on a canvas that is not read-only, installs the link menu as the click
  action, with a canvas pan as the drag, exactly when the point lies on the centre
  marker of a rendered link, the square of 8 by 8 units around the cached centre of the
  first such link; otherwise the press goes on to the groups and the canvas pan. The
  stroke of the path is not tested.
\<close>

theorem plain_press_on_link_tests_centre_marker:
  assumes "\<not> shiftKey e" and "\<not> altKey e" and "\<not> ctrlKey e" and "\<not> metaKey e"
    and "\<not> read_only c"
    and "(if reroutesEnabled c then getRerouteOnPos g (canvasX e) (canvasY e) else None) = None"
  shows "processPrimaryButton lg g e None c =
           Inr (case find (on_link_centre (canvasX e) (canvasY e)) (renderedPaths g) of
                  Some seg \<Rightarrow>
                    set_pointer
                      (\<lambda>p. p\<lparr>onClick := Some (ClickShowLinkMenu seg e),
                             onDragStart := Some DragStartCanvas,
                             finally_hook := Some FinallyCanvas\<rparr>)
                      (c\<lparr>ctx_lineWidth := connections_width c + 7\<rparr>)
                | None \<Rightarrow> press_fallback e (press_groups lg g e c))"
  using assms
  by (simp add: processPrimaryButton_def press_items_def press_links_plain split: option.splits)

theorem plain_press_on_link_tests_centre_marker_witness:
  "\<not> shiftKey (event_at 50 0) \<and> \<not> altKey (event_at 50 0) \<and> \<not> ctrlKey (event_at 50 0)
   \<and> \<not> metaKey (event_at 50 0) \<and> \<not> read_only new_canvas
   \<and> (if reroutesEnabled new_canvas then getRerouteOnPos stroke_graph 50 0 else None) = None
   \<and> onClick
       (pointer
          (state_of (processPrimaryButton plain_settings stroke_graph (event_at 50 0) None
                       new_canvas)))
       = Some (ClickShowLinkMenu rendered_segment (event_at 50 0))"
proof -
  have h: "\<not> shiftKey (event_at 50 0)" "\<not> altKey (event_at 50 0)" "\<not> ctrlKey (event_at 50 0)"
    "\<not> metaKey (event_at 50 0)" "\<not> read_only new_canvas"
    "(if reroutesEnabled new_canvas
      then getRerouteOnPos stroke_graph (canvasX (event_at 50 0)) (canvasY (event_at 50 0))
      else None) = None"
    by code_simp+
  have k: "find (on_link_centre (canvasX (event_at 50 0)) (canvasY (event_at 50 0)))
             (renderedPaths stroke_graph) = Some rendered_segment"
    "reroutesEnabled new_canvas = False"
    by code_simp+
  from plain_press_on_link_tests_centre_marker [OF h, of plain_settings] h k show ?thesis
    by (simp add: set_pointer_def state_of_def)
qed

end
